theory Spec2Isabelle
  imports Complex_Main "HOL-Library.Char_ord" "HOL-Library.List_Lexorder"
begin

section \<open>Strings, characters and the regular expressions of the message normalizer\<close>

text \<open>
  Python strings are modelled as lists of code points below 256 (\<^typ>\<open>string\<close>).
  The character classes below are the ones Python's \<^verbatim>\<open>re\<close> module uses for
  \<^verbatim>\<open>str\<close> patterns, restricted to that range: \<^verbatim>\<open>\d\<close> is a decimal digit,
  \<^verbatim>\<open>\s\<close> is \<^verbatim>\<open>str.isspace\<close>, \<^verbatim>\<open>\w\<close> is \<^verbatim>\<open>str.isalnum\<close> or an underscore.
\<close>

definition code :: "char \<Rightarrow> nat" where
  "code c = of_char c"

definition is_digit :: "char \<Rightarrow> bool" where
  "is_digit c = (48 \<le> code c \<and> code c \<le> 57)"

definition is_space :: "char \<Rightarrow> bool" where
  "is_space c = ((9 \<le> code c \<and> code c \<le> 13) \<or> (28 \<le> code c \<and> code c \<le> 32)
     \<or> code c = 133 \<or> code c = 160)"

definition is_upper_az :: "char \<Rightarrow> bool" where
  "is_upper_az c = (65 \<le> code c \<and> code c \<le> 90)"

definition is_lower_az :: "char \<Rightarrow> bool" where
  "is_lower_az c = (97 \<le> code c \<and> code c \<le> 122)"

definition is_alnum :: "char \<Rightarrow> bool" where
  "is_alnum c = (is_digit c \<or> is_upper_az c \<or> is_lower_az c
     \<or> code c \<in> {170, 178, 179, 181, 185, 186, 188, 189, 190}
     \<or> (192 \<le> code c \<and> code c \<noteq> 215 \<and> code c \<noteq> 247))"

definition is_word :: "char \<Rightarrow> bool" where
  "is_word c = (is_alnum c \<or> c = CHR ''_'')"

definition is_hex_lower :: "char \<Rightarrow> bool" where
  \<comment> \<open>\<^verbatim>\<open>[a-f0-9]\<close>\<close>
  "is_hex_lower c = (is_digit c \<or> (97 \<le> code c \<and> code c \<le> 102))"

definition is_email_user :: "char \<Rightarrow> bool" where
  \<comment> \<open>\<^verbatim>\<open>[a-zA-Z0-9._%+-]\<close>\<close>
  "is_email_user c = (is_lower_az c \<or> is_upper_az c \<or> is_digit c
     \<or> c \<in> {CHR ''.'', CHR ''_'', CHR ''%'', CHR ''+'', CHR ''-''})"

definition is_email_domain :: "char \<Rightarrow> bool" where
  \<comment> \<open>\<^verbatim>\<open>[a-zA-Z0-9.-]\<close>\<close>
  "is_email_domain c = (is_lower_az c \<or> is_upper_az c \<or> is_digit c
     \<or> c \<in> {CHR ''.'', CHR ''-''})"

definition is_alpha_az :: "char \<Rightarrow> bool" where
  \<comment> \<open>\<^verbatim>\<open>[a-zA-Z]\<close>\<close>
  "is_alpha_az c = (is_lower_az c \<or> is_upper_az c)"

definition lower_char :: "char \<Rightarrow> char" where
  \<comment> \<open>\<^verbatim>\<open>str.lower\<close> on one code point below 256\<close>
  "lower_char c = (if is_upper_az c \<or> (192 \<le> code c \<and> code c \<le> 222 \<and> code c \<noteq> 215)
     then char_of (code c + 32) else c)"

definition lower :: "string \<Rightarrow> string" where
  "lower s = map lower_char s"

text \<open>
  The patterns of \<^verbatim>\<open>clean_log_message\<close> are sequences of three kinds of item: a
  character class with a greedy repetition count \<^verbatim>\<open>{lo,hi}\<close> (a single character is the
  class of that character repeated once), the assertion \<^verbatim>\<open>\b\<close>, and a group of literal
  alternatives tried in order.
\<close>

datatype rx_item =
    Rep "char \<Rightarrow> bool" nat "nat option"
  | WordB
  | AltLit "string list"

type_synonym rx = "rx_item list"

definition Lit :: "char \<Rightarrow> rx_item" where
  "Lit c = Rep (\<lambda>x. x = c) 1 (Some 1)"

definition Exactly :: "(char \<Rightarrow> bool) \<Rightarrow> nat \<Rightarrow> rx_item" where
  "Exactly P n = Rep P n (Some n)"

definition AtLeast :: "(char \<Rightarrow> bool) \<Rightarrow> nat \<Rightarrow> rx_item" where
  "AtLeast P n = Rep P n None"

fun first_some :: "('a \<Rightarrow> 'b option) \<Rightarrow> 'a list \<Rightarrow> 'b option" where
  "first_some f [] = None"
| "first_some f (x # xs) = (case f x of Some y \<Rightarrow> Some y | None \<Rightarrow> first_some f xs)"

definition is_word_opt :: "char option \<Rightarrow> bool" where
  \<comment> \<open>the start and the end of the string count as a non-word character\<close>
  "is_word_opt p = (case p of None \<Rightarrow> False | Some c \<Rightarrow> is_word c)"

definition head_opt :: "string \<Rightarrow> char option" where
  "head_opt s = (case s of [] \<Rightarrow> None | c # _ \<Rightarrow> Some c)"

definition prev_at :: "char option \<Rightarrow> string \<Rightarrow> nat \<Rightarrow> char option" where
  \<comment> \<open>the character before position \<open>k\<close> of \<open>s\<close>, \<open>prev\<close> being the one before \<open>s\<close>\<close>
  "prev_at prev s k = (if k = 0 then prev else Some (s ! (k - 1)))"

definition rep_max :: "(char \<Rightarrow> bool) \<Rightarrow> nat option \<Rightarrow> string \<Rightarrow> nat" where
  "rep_max P hi s = (let m = length (takeWhile P s) in
     case hi of None \<Rightarrow> m | Some h \<Rightarrow> min h m)"

text \<open>
  \<open>match_here p prev s\<close> is the backtracking matcher anchored at the start of \<open>s\<close>
  (\<open>prev\<close> is the character before it): the number of characters of the first match in
  priority order (longest repetition first, alternatives left to right), or \<open>None\<close>.
\<close>

primrec match_here :: "rx \<Rightarrow> char option \<Rightarrow> string \<Rightarrow> nat option" where
  "match_here [] prev s = Some 0"
| "match_here (i # r) prev s =
     (case i of
        WordB \<Rightarrow>
          (if is_word_opt prev \<noteq> is_word_opt (head_opt s) then match_here r prev s else None)
      | AltLit alts \<Rightarrow>
          first_some (\<lambda>a. if take (length a) s = a
             then map_option (\<lambda>n. length a + n)
                    (match_here r (prev_at prev s (length a)) (drop (length a) s))
             else None) alts
      | Rep P lo hi \<Rightarrow>
          first_some (\<lambda>k. map_option (\<lambda>n. k + n)
                    (match_here r (prev_at prev s k) (drop k s)))
            (rev [lo ..< Suc (rep_max P hi s)]))"

text \<open>
  \<^verbatim>\<open>re.sub(pattern, repl, string)\<close>: scan from the left; where the pattern matches, emit
  \<open>repl\<close> and continue after the match, otherwise copy one character. None of the
  patterns below matches the empty string, so an empty match is treated as no match.
\<close>

function re_sub :: "rx \<Rightarrow> string \<Rightarrow> char option \<Rightarrow> string \<Rightarrow> string" where
  "re_sub p repl prev [] = []"
| "re_sub p repl prev (c # cs) =
     (case match_here p prev (c # cs) of
        Some (Suc n) \<Rightarrow> repl @ re_sub p repl (prev_at prev (c # cs) (Suc n)) (drop n cs)
      | _ \<Rightarrow> c # re_sub p repl (Some c) cs)"
  by pat_completeness auto
termination
  by (relation "measure (\<lambda>(p, repl, prev, s). length s)") auto

definition rx_timestamp :: rx where
  \<comment> \<open>\<^verbatim>\<open>\d{4}-\d{2}-\d{2}[T\s]\d{2}:\d{2}:\d{2}\<close>\<close>
  "rx_timestamp = [Exactly is_digit 4, Lit CHR ''-'', Exactly is_digit 2, Lit CHR ''-'',
     Exactly is_digit 2, Exactly (\<lambda>c. c = CHR ''T'' \<or> is_space c) 1,
     Exactly is_digit 2, Lit CHR '':'', Exactly is_digit 2, Lit CHR '':'', Exactly is_digit 2]"

definition rx_ip :: rx where
  \<comment> \<open>\<^verbatim>\<open>\b\d+\.\d+\.\d+\.\d+\b\<close>\<close>
  "rx_ip = [WordB, AtLeast is_digit 1, Lit CHR ''.'', AtLeast is_digit 1, Lit CHR ''.'',
     AtLeast is_digit 1, Lit CHR ''.'', AtLeast is_digit 1, WordB]"

definition rx_uuid :: rx where
  \<comment> \<open>\<^verbatim>\<open>\b[a-f0-9]{8}-[a-f0-9]{4}-[a-f0-9]{4}-[a-f0-9]{4}-[a-f0-9]{12}\b\<close>\<close>
  "rx_uuid = [WordB, Exactly is_hex_lower 8, Lit CHR ''-'', Exactly is_hex_lower 4,
     Lit CHR ''-'', Exactly is_hex_lower 4, Lit CHR ''-'', Exactly is_hex_lower 4,
     Lit CHR ''-'', Exactly is_hex_lower 12, WordB]"

definition rx_num :: rx where
  \<comment> \<open>\<^verbatim>\<open>\b\d+\b\<close>\<close>
  "rx_num = [WordB, AtLeast is_digit 1, WordB]"

definition rx_email :: rx where
  \<comment> \<open>\<^verbatim>\<open>\b[a-zA-Z0-9._%+-]+@[a-zA-Z0-9.-]+\.[a-zA-Z]{2,}\b\<close>\<close>
  "rx_email = [WordB, AtLeast is_email_user 1, Lit CHR ''@'', AtLeast is_email_domain 1,
     Lit CHR ''.'', AtLeast is_alpha_az 2, WordB]"

definition id_prefixes :: "string list" where
  "id_prefixes = [''user_'', ''order_'', ''sess_'', ''req_'', ''log_'', ''client_'',
     ''srv_'', ''vol_'', ''q_'', ''cache_'']"

definition rx_id :: rx where
  \<comment> \<open>\<^verbatim>\<open>\b(user_|order_|sess_|req_|log_|client_|srv_|vol_|q_|cache_)\w+\<close>\<close>
  "rx_id = [WordB, AltLit id_prefixes, AtLeast is_word 1]"

definition rx_spaces :: rx where
  \<comment> \<open>\<^verbatim>\<open>\s+\<close>\<close>
  "rx_spaces = [AtLeast is_space 1]"

definition strip :: "string \<Rightarrow> string" where
  \<comment> \<open>\<^verbatim>\<open>str.strip()\<close>\<close>
  "strip s = rev (dropWhile is_space (rev (dropWhile is_space s)))"

text \<open>
  A cell of a data frame: a string, an integer, or a missing value (\<^verbatim>\<open>NaN\<close>/\<^verbatim>\<open>None\<close>).
\<close>

datatype cell = Str string | Num int | Missing

definition substitute :: "string \<Rightarrow> string" where
  \<comment> \<open>the six substitutions of \<^verbatim>\<open>clean_log_message\<close>, in the source's order\<close>
  "substitute m0 =
     (let m1 = re_sub rx_timestamp ''[TIMESTAMP]'' None m0;
          m2 = re_sub rx_ip ''[IP]'' None m1;
          m3 = re_sub rx_uuid ''[UUID]'' None m2;
          m4 = re_sub rx_num ''[NUM]'' None m3;
          m5 = re_sub rx_email ''[EMAIL]'' None m4;
          m6 = re_sub rx_id ''[ID]'' None m5
      in m6)"

definition collapse_spaces :: "string \<Rightarrow> string" where
  \<comment> \<open>\<^verbatim>\<open>re.sub(r'\s+', ' ', message).strip()\<close>\<close>
  "collapse_spaces m = strip (re_sub rx_spaces '' '' None m)"

fun clean_log_message :: "cell \<Rightarrow> string" where
  "clean_log_message (Str message) = collapse_spaces (substitute (lower message))"
| "clean_log_message _ = ''''"


section \<open>Python values shared by both modules\<close>

text \<open>An exception is its class name and its message (\<^verbatim>\<open>str(e)\<close>).\<close>

datatype exn = Exn (exn_class: string) (exn_msg: string)

text \<open>A record of the module logger: the level and the formatted message.\<close>

datatype log_entry = LogInfo string | LogWarning string | LogError string

definition is_error :: "log_entry \<Rightarrow> bool" where
  "is_error e = (case e of LogError _ \<Rightarrow> True | _ \<Rightarrow> False)"

fun digit_char :: "nat \<Rightarrow> char" where
  "digit_char n = char_of (48 + n mod 10)"

fun decimal :: "nat \<Rightarrow> string" where
  "decimal n = (if n < 10 then [digit_char n] else decimal (n div 10) @ [digit_char n])"

declare decimal.simps [simp del]

definition str_int :: "int \<Rightarrow> string" where
  \<comment> \<open>\<^verbatim>\<open>str(i)\<close> for an integer\<close>
  "str_int i = (if i < 0 then CHR ''-'' # decimal (nat (- i)) else decimal (nat i))"

text \<open>
  A dictionary keeps its keys in insertion order; it is an association list with
  distinct keys. Assigning to an existing key keeps the key's position.
\<close>

fun dict_set :: "('k \<times> 'v) list \<Rightarrow> 'k \<Rightarrow> 'v \<Rightarrow> ('k \<times> 'v) list" where
  "dict_set [] k v = [(k, v)]"
| "dict_set ((k', v') # d) k v = (if k' = k then (k, v) # d else (k', v') # dict_set d k v)"

definition dict_keys :: "('k \<times> 'v) list \<Rightarrow> 'k list" where
  "dict_keys d = map fst d"

section \<open>The preprocessor (enhanced\_preprocessing.py)\<close>

subsection \<open>Data frames and timestamps\<close>

text \<open>
  A data frame is its number of rows and its columns in order. A parsed timestamp carries
  the calendar fields pandas exposes through \<^verbatim>\<open>.dt\<close>; \<open>None\<close> in a parsed series is
  \<^verbatim>\<open>NaT\<close>.
\<close>

record dataframe =
  nrows :: nat
  columns :: "(string \<times> cell list) list"

definition df_col :: "dataframe \<Rightarrow> string \<Rightarrow> cell list option" where
  "df_col df name = map_of (columns df) name"

definition df_assign :: "dataframe \<Rightarrow> string \<Rightarrow> cell list \<Rightarrow> dataframe" where
  "df_assign df name vals = df\<lparr>columns := dict_set (columns df) name vals\<rparr>"

record datetime =
  dt_year :: nat
  dt_month :: nat
  dt_day :: nat
  dt_hour :: nat
  dt_minute :: nat
  dt_second :: nat
  dt_dayofweek :: nat

definition astype_str :: "cell \<Rightarrow> string" where
  \<comment> \<open>\<^verbatim>\<open>Series.astype(str)\<close> on one cell\<close>
  "astype_str c = (case c of Str s \<Rightarrow> s | Num i \<Rightarrow> str_int i | Missing \<Rightarrow> ''nan'')"

definition flag :: "bool \<Rightarrow> cell" where
  \<comment> \<open>\<^verbatim>\<open>.astype(int)\<close> of a boolean\<close>
  "flag b = Num (if b then 1 else 0)"

definition hour_of :: "datetime option \<Rightarrow> cell" where
  "hour_of d = (case d of None \<Rightarrow> Missing | Some t \<Rightarrow> Num (int (dt_hour t)))"

definition dayofweek_of :: "datetime option \<Rightarrow> cell" where
  "dayofweek_of d = (case d of None \<Rightarrow> Missing | Some t \<Rightarrow> Num (int (dt_dayofweek t)))"

definition is_weekend_of :: "datetime option \<Rightarrow> cell" where
  "is_weekend_of d = flag (case d of None \<Rightarrow> False | Some t \<Rightarrow> dt_dayofweek t \<ge> 5)"

definition is_business_hours_of :: "datetime option \<Rightarrow> cell" where
  "is_business_hours_of d =
     flag (case d of None \<Rightarrow> False | Some t \<Rightarrow> dt_hour t \<ge> 9 \<and> dt_hour t \<le> 17)"

definition is_night_of :: "datetime option \<Rightarrow> cell" where
  "is_night_of d =
     flag (case d of None \<Rightarrow> False | Some t \<Rightarrow> dt_hour t \<ge> 22 \<or> dt_hour t \<le> 6)"

text \<open>
  \<^verbatim>\<open>extract_temporal_features\<close>. The parser \<^verbatim>\<open>pd.to_datetime\<close> is a parameter: it
  raises on a series it cannot parse and yields \<^verbatim>\<open>NaT\<close> for a missing value. The result is
  the new frame's five columns in the order they are assigned.
\<close>

definition extract_temporal_features ::
  "(cell list \<Rightarrow> exn + datetime option list) \<Rightarrow> cell list \<Rightarrow> exn + (string \<times> cell list) list"
where
  "extract_temporal_features to_datetime timestamps =
     (case to_datetime timestamps of
        Inl e \<Rightarrow> Inl e
      | Inr dt_series \<Rightarrow> Inr
          [(''hour'', map hour_of dt_series),
           (''day_of_week'', map dayofweek_of dt_series),
           (''is_weekend'', map is_weekend_of dt_series),
           (''is_business_hours'', map is_business_hours_of dt_series),
           (''is_night'', map is_night_of dt_series)])"


subsection \<open>Label encoders\<close>

text \<open>
  scikit-learn's \<^verbatim>\<open>LabelEncoder\<close> on strings. \<^verbatim>\<open>fit_transform\<close> stores the sorted
  distinct values as \<^verbatim>\<open>classes_\<close> (strings are compared code point by code point) and
  returns each value's position in it. \<^verbatim>\<open>transform\<close> builds the table
  \<^verbatim>\<open>{val: i for i, val in enumerate(classes_)}\<close> and raises \<^verbatim>\<open>ValueError\<close> on a value
  that is not in it.
\<close>

definition le_table :: "string list \<Rightarrow> string \<Rightarrow> nat option" where
  "le_table classes = map_of (rev (zip classes [0 ..< length classes]))"

fun le_transform :: "string list \<Rightarrow> string list \<Rightarrow> exn + nat list" where
  "le_transform classes [] = Inr []"
| "le_transform classes (v # vs) =
     (case le_table classes v of
        None \<Rightarrow> Inl (Exn ''ValueError'' (''y contains previously unseen labels: '' @ v))
      | Some i \<Rightarrow> (case le_transform classes vs of Inl e \<Rightarrow> Inl e | Inr is \<Rightarrow> Inr (i # is)))"

definition le_fit :: "string list \<Rightarrow> string list" where
  "le_fit vals = sort (remdups vals)"

definition le_fit_transform :: "string list \<Rightarrow> string list \<times> nat list" where
  "le_fit_transform vals =
     (let classes = le_fit vals in (classes, map (\<lambda>v. the (le_table classes v)) vals))"

subsection \<open>Numeric arrays and the scaler\<close>

text \<open>
  An array entry is a number (an exact real stands for the float), \<^verbatim>\<open>NaN\<close>, or a string
  (an object array). A matrix is the list of its rows. \<^verbatim>\<open>StandardScaler.fit\<close> discards
  what was fitted before and stores each column's mean and variance over the entries that
  are not \<^verbatim>\<open>NaN\<close>.
\<close>

datatype entry = Val real | NaN | Obj string

type_synonym matrix = "entry list list"

datatype ndarray = Matrix matrix | Vector "cell list"

definition cell_entry :: "cell \<Rightarrow> entry" where
  "cell_entry c = (case c of Num i \<Rightarrow> Val (real_of_int i) | Missing \<Rightarrow> NaN | Str s \<Rightarrow> Obj s)"

record scaler_state =
  sc_mean :: "entry list"
  sc_var :: "entry list"
  sc_scale :: "entry list"

fun vals_of :: "entry list \<Rightarrow> real list" where
  "vals_of [] = []"
| "vals_of (Val v # es) = v # vals_of es"
| "vals_of (_ # es) = vals_of es"

definition nan_mean :: "entry list \<Rightarrow> entry" where
  "nan_mean col = (let vs = vals_of col in
     if vs = [] then NaN else Val (sum_list vs / real (length vs)))"

definition nan_var :: "entry list \<Rightarrow> entry" where
  "nan_var col = (let vs = vals_of col in
     if vs = [] then NaN
     else let m = sum_list vs / real (length vs)
          in Val (sum_list (map (\<lambda>v. (v - m) * (v - m)) vs) / real (length vs)))"

definition scale_of :: "entry \<Rightarrow> entry" where
  "scale_of v = (case v of Val x \<Rightarrow> (if x = 0 then Val 1 else Val (sqrt x)) | e \<Rightarrow> e)"

definition has_obj :: "matrix \<Rightarrow> bool" where
  "has_obj X = (\<exists>row \<in> set X. \<exists>e \<in> set row. case e of Obj _ \<Rightarrow> True | _ \<Rightarrow> False)"

definition n_features :: "matrix \<Rightarrow> nat" where
  "n_features X = (case X of [] \<Rightarrow> 0 | row # _ \<Rightarrow> length row)"

definition matrix_columns :: "matrix \<Rightarrow> entry list list" where
  "matrix_columns X = map (\<lambda>j. map (\<lambda>row. row ! j) X) [0 ..< n_features X]"

definition scaler_fit :: "matrix \<Rightarrow> exn + scaler_state" where
  "scaler_fit X =
     (if has_obj X then Inl (Exn ''ValueError'' ''could not convert string to float'')
      else if X = [] \<or> n_features X = 0
        then Inl (Exn ''ValueError'' ''Found array with 0 sample(s) or 0 feature(s)'')
      else let cols = matrix_columns X; vars = map nan_var cols in
        Inr \<lparr>sc_mean = map nan_mean cols, sc_var = vars, sc_scale = map scale_of vars\<rparr>)"

definition scale_entry :: "entry \<Rightarrow> entry \<Rightarrow> entry \<Rightarrow> entry" where
  "scale_entry m s e = (case (e, m, s) of (Val x, Val mu, Val sd) \<Rightarrow> Val ((x - mu) / sd) | _ \<Rightarrow> NaN)"

definition scaler_transform :: "scaler_state \<Rightarrow> matrix \<Rightarrow> matrix" where
  "scaler_transform sc X =
     map (\<lambda>row. map (\<lambda>(e, m, s). scale_entry m s e) (zip row (zip (sc_mean sc) (sc_scale sc)))) X"

definition scaler_fit_transform :: "matrix \<Rightarrow> exn + (scaler_state \<times> matrix)" where
  "scaler_fit_transform X =
     (case scaler_fit X of Inl e \<Rightarrow> Inl e | Inr sc \<Rightarrow> Inr (sc, scaler_transform sc X))"

definition array_size :: "matrix \<Rightarrow> nat" where
  \<comment> \<open>\<^verbatim>\<open>ndarray.size\<close>\<close>
  "array_size X = sum_list (map length X)"

definition hstack :: "matrix \<Rightarrow> matrix \<Rightarrow> exn + matrix" where
  \<comment> \<open>\<^verbatim>\<open>np.hstack([A, B])\<close> of two arrays with the same number of rows\<close>
  "hstack A B =
     (if length A = length B then Inr (map (\<lambda>(a, b). a @ b) (zip A B))
      else Inl (Exn ''ValueError'' ''all the input array dimensions except for the concatenation axis must match exactly''))"

definition shape_str :: "matrix \<Rightarrow> string" where
  "shape_str X = ''('' @ decimal (length X) @ '', '' @ decimal (n_features X) @ '')''"

subsection \<open>The preprocessor object and its environment\<close>

text \<open>
  The fields of \<^verbatim>\<open>EnhancedLogPreprocessor\<close> (the tokenizer and the embedding model are
  represented by \<open>use_bert\<close>, which records whether they loaded), together with what the
  methods change outside the object: the files of the working directory and the output of
  the module logger. \<open>'v\<close> is the type of a fitted TF-IDF vectorizer.
\<close>

datatype 'v tfidf = Unfitted nat | Fitted 'v

record 'v saved_objects =
  so_label_encoders :: "(string \<times> string list) list"
  so_tfidf_vectorizer :: "'v tfidf option"
  so_scaler :: "scaler_state option"
  so_use_bert :: bool
  so_bert_model_name :: string

datatype 'v pp_file =
    NpyFile ndarray
  | PickleFile "'v saved_objects"
  | CsvFile dataframe

record 'v preprocessor =
  bert_model_name :: string
  label_encoders :: "(string \<times> string list) list"
  tfidf_vectorizer :: "'v tfidf option"
  scaler :: "scaler_state option"
  use_bert :: bool
  disk :: "string \<Rightarrow> 'v pp_file option"
  logged :: "log_entry list"

definition log_info :: "string \<Rightarrow> 'v preprocessor \<Rightarrow> 'v preprocessor" where
  "log_info msg p = p\<lparr>logged := logged p @ [LogInfo msg]\<rparr>"

definition log_warning :: "string \<Rightarrow> 'v preprocessor \<Rightarrow> 'v preprocessor" where
  "log_warning msg p = p\<lparr>logged := logged p @ [LogWarning msg]\<rparr>"

definition log_error :: "string \<Rightarrow> 'v preprocessor \<Rightarrow> 'v preprocessor" where
  "log_error msg p = p\<lparr>logged := logged p @ [LogError msg]\<rparr>"

text \<open>
  The libraries the preprocessor calls are parameters: the CSV reader, the timestamp
  parser, the order in which a Python \<^verbatim>\<open>set\<close> of strings is iterated (it follows the
  strings' hashes, not their insertion order), the hourly error quantile of
  \<^verbatim>\<open>detect_anomalous_patterns\<close>, the pretrained model's loader and its embedding of one
  batch, the TF-IDF vectorizer, and the stratified split.
\<close>

record 'v pp_env =
  read_csv :: "string \<Rightarrow> exn + dataframe"
  to_datetime :: "cell list \<Rightarrow> exn + datetime option list"
  set_order :: "string list \<Rightarrow> string list"
  high_error_period :: "dataframe \<Rightarrow> datetime option list \<Rightarrow> bool list"
  from_pretrained :: "string \<Rightarrow> exn option"
  bert_batch :: "string list \<Rightarrow> nat \<Rightarrow> exn + matrix"
  tfidf_fit_transform :: "nat \<Rightarrow> string list \<Rightarrow> exn + ('v \<times> matrix)"
  tfidf_transform :: "'v \<Rightarrow> string list \<Rightarrow> exn + matrix"
  train_test_split :: "matrix \<Rightarrow> cell list \<Rightarrow> real \<Rightarrow> exn + (matrix \<times> matrix \<times> cell list \<times> cell list)"

definition quoted :: "string \<Rightarrow> string" where
  "quoted s = [CHR 0x27] @ s @ [CHR 0x27]"

definition new_preprocessor ::
  "'v pp_env \<Rightarrow> string \<Rightarrow> (string \<Rightarrow> 'v pp_file option) \<Rightarrow> log_entry list \<Rightarrow> 'v preprocessor"
where
  \<comment> \<open>\<^verbatim>\<open>__init__\<close>, in a process with the given files and earlier log output\<close>
  "new_preprocessor env name files out =
     (let p = \<lparr>bert_model_name = name, label_encoders = [], tfidf_vectorizer = None,
                scaler = None, use_bert = False, disk = files, logged = out\<rparr>
      in case from_pretrained env name of
           None \<Rightarrow> log_info (''BERT model '' @ quoted name @ '' loaded successfully'')
                     (p\<lparr>use_bert := True\<rparr>)
         | Some e \<Rightarrow> log_warning (''Failed to load BERT model: '' @ exn_msg e @ ''. Using TF-IDF instead.'')
                     (p\<lparr>use_bert := False\<rparr>))"


subsection \<open>Text features\<close>

function batches :: "nat \<Rightarrow> 'a list \<Rightarrow> 'a list list" where
  "batches n xs = (if n = 0 \<or> xs = [] then [] else take n xs # batches n (drop n xs))"
  by pat_completeness auto
termination
  by (relation "measure (\<lambda>(n, xs). length xs)") auto

declare batches.simps [simp del]

fun embed_batches :: "'v pp_env \<Rightarrow> nat \<Rightarrow> string list list \<Rightarrow> exn + matrix" where
  "embed_batches env max_length [] = Inr []"
| "embed_batches env max_length (b # bs) =
     (case bert_batch env b max_length of
        Inl e \<Rightarrow> Inl e
      | Inr batch_embeddings \<Rightarrow>
          (case embed_batches env max_length bs of
             Inl e \<Rightarrow> Inl e
           | Inr embeddings \<Rightarrow> Inr (batch_embeddings @ embeddings)))"

definition get_bert_embeddings ::
  "'v pp_env \<Rightarrow> string list \<Rightarrow> nat \<Rightarrow> 'v preprocessor \<Rightarrow> (exn + matrix) \<times> 'v preprocessor"
where
  "get_bert_embeddings env messages max_length p =
     (if \<not> use_bert p then (Inr [], log_warning ''BERT model not available'' p)
      else
        let p1 = log_info (''Generating BERT embeddings for '' @ decimal (length messages)
                   @ '' messages'') p
        in (embed_batches env max_length (batches 32 messages), p1))"

definition get_tfidf_features ::
  "'v pp_env \<Rightarrow> string list \<Rightarrow> nat \<Rightarrow> 'v preprocessor \<Rightarrow> (exn + matrix) \<times> 'v preprocessor"
where
  "get_tfidf_features env messages max_features p =
     (case tfidf_vectorizer p of
        None \<Rightarrow>
          (case tfidf_fit_transform env max_features messages of
             Inl e \<Rightarrow> (Inl e, p\<lparr>tfidf_vectorizer := Some (Unfitted max_features)\<rparr>)
           | Inr (v, tfidf_features) \<Rightarrow>
               (Inr tfidf_features, p\<lparr>tfidf_vectorizer := Some (Fitted v)\<rparr>))
      | Some (Unfitted _) \<Rightarrow>
          (Inl (Exn ''NotFittedError'' ''The TF-IDF vectorizer is not fitted''), p)
      | Some (Fitted v) \<Rightarrow> (tfidf_transform env v messages, p))"

subsection \<open>Categorical encoding\<close>

text \<open>
  One iteration of the loop of \<^verbatim>\<open>encode_categorical_features\<close>: \<open>df\<close> is the input
  frame, \<open>encoded_df\<close> the copy that receives the new columns.
\<close>

definition encode_column ::
  "'v pp_env \<Rightarrow> dataframe \<Rightarrow> string \<Rightarrow> dataframe \<Rightarrow> 'v preprocessor
     \<Rightarrow> (exn + dataframe) \<times> 'v preprocessor"
where
  "encode_column env df col encoded_df p =
     (case df_col df col of
        None \<Rightarrow> (Inr encoded_df, p)
      | Some cells \<Rightarrow>
          let vals = map astype_str cells in
          (case map_of (label_encoders p) col of
             None \<Rightarrow>
               let (classes, codes) = le_fit_transform vals in
               (Inr (df_assign encoded_df (col @ ''_encoded'') (map (\<lambda>i. Num (int i)) codes)),
                p\<lparr>label_encoders := dict_set (label_encoders p) col classes\<rparr>)
           | Some classes \<Rightarrow>
               let unique_values = remdups vals;
                   known_values = remdups classes;
                   new_values = filter (\<lambda>v. v \<notin> set known_values) unique_values;
                   classes' = (if new_values \<noteq> []
                     then set_order env known_values @ set_order env new_values
                     else classes);
                   p' = p\<lparr>label_encoders := dict_set (label_encoders p) col classes'\<rparr>
               in (case le_transform classes' vals of
                     Inl e \<Rightarrow> (Inl e, p')
                   | Inr codes \<Rightarrow>
                       (Inr (df_assign encoded_df (col @ ''_encoded'')
                               (map (\<lambda>i. Num (int i)) codes)), p'))))"

fun encode_columns ::
  "'v pp_env \<Rightarrow> dataframe \<Rightarrow> string list \<Rightarrow> dataframe \<Rightarrow> 'v preprocessor
     \<Rightarrow> (exn + dataframe) \<times> 'v preprocessor"
where
  "encode_columns env df [] encoded_df p = (Inr encoded_df, p)"
| "encode_columns env df (col # cols) encoded_df p =
     (case encode_column env df col encoded_df p of
        (Inl e, p') \<Rightarrow> (Inl e, p')
      | (Inr encoded_df', p') \<Rightarrow> encode_columns env df cols encoded_df' p')"

definition encode_categorical_features ::
  "'v pp_env \<Rightarrow> dataframe \<Rightarrow> string list \<Rightarrow> 'v preprocessor
     \<Rightarrow> (exn + dataframe) \<times> 'v preprocessor"
where
  "encode_categorical_features env df categorical_columns p =
     encode_columns env df categorical_columns df p"

subsection \<open>Anomaly flags\<close>

definition detect_anomalous_patterns :: "'v pp_env \<Rightarrow> dataframe \<Rightarrow> exn + dataframe" where
  "detect_anomalous_patterns env df =
     (let anomaly_df = df_assign df ''is_anomaly''
            (case df_col df ''anomaly_type'' of
               Some cells \<Rightarrow> map (\<lambda>c. flag (c \<noteq> Missing)) cells
             | None \<Rightarrow> replicate (nrows df) (Num 0))
      in case df_col df ''timestamp'' of
           None \<Rightarrow> Inr anomaly_df
         | Some timestamps \<Rightarrow>
             (case to_datetime env timestamps of
                Inl e \<Rightarrow> Inl e
              | Inr dt_series \<Rightarrow>
                  let anomaly_df1 = df_assign anomaly_df ''unusual_timing''
                        (map (\<lambda>d. flag (case d of None \<Rightarrow> False
                                         | Some t \<Rightarrow> dt_hour t \<ge> 22 \<or> dt_hour t \<le> 6)) dt_series)
                  in (case df_col df ''level'' of
                        None \<Rightarrow> Inr anomaly_df1
                      | Some _ \<Rightarrow> Inr (df_assign anomaly_df1 ''high_error_period''
                                         (map flag (high_error_period env df dt_series))))))"


subsection \<open>The pipeline\<close>

definition save_processed_data ::
  "matrix \<Rightarrow> matrix \<Rightarrow> cell list \<Rightarrow> cell list \<Rightarrow> dataframe \<Rightarrow> 'v preprocessor \<Rightarrow> 'v preprocessor"
where
  "save_processed_data X_train X_test y_train y_test df p =
     log_info ''Processed data saved successfully''
       (p\<lparr>disk := (disk p)
            (''X_train_enhanced.npy'' \<mapsto> NpyFile (Matrix X_train),
             ''X_test_enhanced.npy'' \<mapsto> NpyFile (Matrix X_test),
             ''y_train_enhanced.npy'' \<mapsto> NpyFile (Vector y_train),
             ''y_test_enhanced.npy'' \<mapsto> NpyFile (Vector y_test),
             ''preprocessor_objects.pkl'' \<mapsto> PickleFile
                \<lparr>so_label_encoders = label_encoders p,
                 so_tfidf_vectorizer = tfidf_vectorizer p,
                 so_scaler = scaler p,
                 so_use_bert = use_bert p,
                 so_bert_model_name = bert_model_name p\<rparr>,
             ''logs_enhanced_processed.csv'' \<mapsto> CsvFile df)\<rparr>)"

definition np_load :: "(string \<Rightarrow> 'v pp_file option) \<Rightarrow> string \<Rightarrow> exn + ndarray" where
  "np_load files name =
     (case files name of
        None \<Rightarrow> Inl (Exn ''FileNotFoundError'' (''No such file or directory: '' @ quoted name))
      | Some (NpyFile a) \<Rightarrow> Inr a
      | Some _ \<Rightarrow> Inl (Exn ''ValueError'' ''Cannot load file containing pickled data''))"

definition pickle_load ::
  "(string \<Rightarrow> 'v pp_file option) \<Rightarrow> string \<Rightarrow> exn + 'v saved_objects"
where
  "pickle_load files name =
     (case files name of
        None \<Rightarrow> Inl (Exn ''FileNotFoundError'' (''No such file or directory: '' @ quoted name))
      | Some (PickleFile objects) \<Rightarrow> Inr objects
      | Some _ \<Rightarrow> Inl (Exn ''UnpicklingError'' ''invalid load key''))"

definition load_failed :: "exn \<Rightarrow> 'v preprocessor \<Rightarrow> 'v preprocessor" where
  \<comment> \<open>the handler of \<^verbatim>\<open>load_processed_data\<close>: it logs \<^verbatim>\<open>FileNotFoundError\<close> only\<close>
  "load_failed e p =
     (if exn_class e = ''FileNotFoundError''
      then log_error ''No processed data found. Please run preprocessing first.'' p else p)"

definition load_processed_data ::
  "'v preprocessor \<Rightarrow> (exn + (ndarray \<times> ndarray \<times> ndarray \<times> ndarray)) \<times> 'v preprocessor"
where
  "load_processed_data p =
     (case np_load (disk p) ''X_train_enhanced.npy'' of
        Inl e \<Rightarrow> (Inl e, load_failed e p)
      | Inr X_train \<Rightarrow>
     (case np_load (disk p) ''X_test_enhanced.npy'' of
        Inl e \<Rightarrow> (Inl e, load_failed e p)
      | Inr X_test \<Rightarrow>
     (case np_load (disk p) ''y_train_enhanced.npy'' of
        Inl e \<Rightarrow> (Inl e, load_failed e p)
      | Inr y_train \<Rightarrow>
     (case np_load (disk p) ''y_test_enhanced.npy'' of
        Inl e \<Rightarrow> (Inl e, load_failed e p)
      | Inr y_test \<Rightarrow>
     (case pickle_load (disk p) ''preprocessor_objects.pkl'' of
        Inl e \<Rightarrow> (Inl e, load_failed e p)
      | Inr objects \<Rightarrow>
          (Inr (X_train, X_test, y_train, y_test),
           log_info ''Processed data loaded successfully''
             (p\<lparr>label_encoders := so_label_encoders objects,
                tfidf_vectorizer := so_tfidf_vectorizer objects,
                scaler := so_scaler objects\<rparr>)))))))"

definition temporal_cols :: "string list" where
  "temporal_cols = [''hour'', ''day_of_week'', ''is_weekend'', ''is_business_hours'', ''is_night'']"

definition categorical_columns :: "string list" where
  "categorical_columns = [''level'', ''source'']"

definition anomaly_cols :: "string list" where
  "anomaly_cols = [''unusual_timing'', ''high_error_period'']"

definition in_columns :: "dataframe \<Rightarrow> string \<Rightarrow> bool" where
  "in_columns df name = (name \<in> set (map fst (columns df)))"

definition feature_columns :: "dataframe \<Rightarrow> string list" where
  "feature_columns df =
     filter (in_columns df) temporal_cols
     @ filter (in_columns df) (map (\<lambda>col. col @ ''_encoded'') categorical_columns)
     @ filter (in_columns df) anomaly_cols"

definition df_values :: "dataframe \<Rightarrow> string list \<Rightarrow> matrix" where
  \<comment> \<open>\<^verbatim>\<open>df[names].values\<close>; every column of a frame has \<open>nrows\<close> cells\<close>
  "df_values df names =
     map (\<lambda>i. map (\<lambda>name. cell_entry (the (df_col df name) ! i)) names) [0 ..< nrows df]"

definition add_columns :: "dataframe \<Rightarrow> (string \<times> cell list) list \<Rightarrow> dataframe" where
  \<comment> \<open>\<^verbatim>\<open>pd.concat([df, other], axis=1)\<close>, for column names the frame does not have yet\<close>
  "add_columns df cols = fold (\<lambda>(name, vals) d. df_assign d name vals) cols df"

text \<open>Lines 300 to 313 of \<^verbatim>\<open>preprocess_logs\<close>: the text features, stacked to the right.\<close>

definition text_features ::
  "'v pp_env \<Rightarrow> bool \<Rightarrow> string list \<Rightarrow> matrix \<Rightarrow> 'v preprocessor
     \<Rightarrow> (exn + matrix) \<times> 'v preprocessor"
where
  "text_features env use_bert_arg cleaned X_basic p =
     (if use_bert_arg \<and> use_bert p then
        (case get_bert_embeddings env cleaned 128
                (log_info ''Using BERT embeddings for text features'' p) of
           (Inl e, p1) \<Rightarrow> (Inl e, p1)
         | (Inr tf, p1) \<Rightarrow>
             if array_size tf > 0 then (hstack X_basic tf, p1)
             else
               (case get_tfidf_features env cleaned 1000
                       (log_warning ''BERT embeddings failed, falling back to TF-IDF'' p1) of
                  (Inl e, p2) \<Rightarrow> (Inl e, p2)
                | (Inr tf2, p2) \<Rightarrow> (hstack X_basic tf2, p2)))
      else
        (case get_tfidf_features env cleaned 1000
                (log_info ''Using TF-IDF features for text'' p) of
           (Inl e, p1) \<Rightarrow> (Inl e, p1)
         | (Inr tf, p1) \<Rightarrow> (hstack X_basic tf, p1)))"

text \<open>Lines 315 to 336: the target, the scaler, the split and the saved files.\<close>

definition scale_and_split ::
  "'v pp_env \<Rightarrow> real \<Rightarrow> bool \<Rightarrow> dataframe \<Rightarrow> matrix \<Rightarrow> 'v preprocessor
     \<Rightarrow> (exn + (matrix \<times> matrix \<times> cell list \<times> cell list)) \<times> 'v preprocessor"
where
  "scale_and_split env test_size save_processed df X_combined p =
     (case df_col df ''level'' of
        None \<Rightarrow> (Inl (Exn ''ValueError'' ''Missing target variable''),
                  log_error ''No target variable found'' p)
      | Some _ \<Rightarrow>
     (case df_col df ''level_encoded'' of
        None \<Rightarrow> (Inl (Exn ''KeyError'' ''level_encoded''), p)
      | Some y \<Rightarrow>
     (case scaler_fit_transform X_combined of
        Inl e \<Rightarrow> (Inl e, p\<lparr>scaler := None\<rparr>)
      | Inr (sc, X_scaled) \<Rightarrow>
          let p1 = p\<lparr>scaler := Some sc\<rparr> in
     (case train_test_split env X_scaled y test_size of
        Inl e \<Rightarrow> (Inl e, p1)
      | Inr (X_train, X_test, y_train, y_test) \<Rightarrow>
          let p2 = log_info (''Training set: '' @ shape_str X_train @ '', Test set: ''
                     @ shape_str X_test) p1;
              p3 = (if save_processed
                    then save_processed_data X_train X_test y_train y_test df p2 else p2)
          in (Inr (X_train, X_test, y_train, y_test), p3)))))"

definition cleaned_messages :: "cell list \<Rightarrow> string list" where
  "cleaned_messages msgs = map clean_log_message msgs"

text \<open>
  Lines 253 to 313 of \<^verbatim>\<open>preprocess_logs\<close>: the frame is read, cleaned, flagged and
  encoded, and the feature matrix is assembled, one row for each record of the frame.
\<close>

definition assemble_features ::
  "'v pp_env \<Rightarrow> string \<Rightarrow> bool \<Rightarrow> 'v preprocessor
     \<Rightarrow> (exn + (dataframe \<times> matrix)) \<times> 'v preprocessor"
where
  "assemble_features env file_path use_bert_arg p =
     (let p0 = log_info (''Starting log preprocessing from '' @ quoted file_path) p in
      case read_csv env file_path of
        Inl e \<Rightarrow>
          (Inl e, if exn_class e = ''FileNotFoundError''
                  then log_error (''File '' @ quoted file_path @ '' not found'') p0 else p0)
      | Inr df0 \<Rightarrow>
      let p1 = log_info (''Loaded '' @ decimal (nrows df0) @ '' log entries'') p0 in
     (case df_col df0 ''message'' of
        None \<Rightarrow> (Inl (Exn ''ValueError'' ''Missing 'message' column''),
                  log_error ''No 'message' column found in the data'' p1)
      | Some msgs \<Rightarrow>
      let cleaned = cleaned_messages msgs;
          df1 = df_assign df0 ''cleaned_message'' (map Str cleaned) in
     (case (case df_col df1 ''timestamp'' of
              None \<Rightarrow> Inr df1
            | Some timestamps \<Rightarrow>
                (case extract_temporal_features (to_datetime env) timestamps of
                   Inl e \<Rightarrow> Inl e
                 | Inr temporal \<Rightarrow> Inr (add_columns df1 temporal))) of
        Inl e \<Rightarrow> (Inl e, p1)
      | Inr df2 \<Rightarrow>
     (case detect_anomalous_patterns env df2 of
        Inl e \<Rightarrow> (Inl e, p1)
      | Inr df3 \<Rightarrow>
     (case encode_categorical_features env df3 categorical_columns p1 of
        (Inl e, p2) \<Rightarrow> (Inl e, p2)
      | (Inr df4, p2) \<Rightarrow>
     (case text_features env use_bert_arg cleaned
             (df_values df4 (feature_columns df4)) p2 of
        (Inl e, p3) \<Rightarrow> (Inl e, p3)
      | (Inr X_combined, p3) \<Rightarrow> (Inr (df4, X_combined), p3)))))))"

definition preprocess_logs ::
  "'v pp_env \<Rightarrow> string \<Rightarrow> bool \<Rightarrow> real \<Rightarrow> bool \<Rightarrow> 'v preprocessor
     \<Rightarrow> (exn + (matrix \<times> matrix \<times> cell list \<times> cell list)) \<times> 'v preprocessor"
where
  "preprocess_logs env file_path use_bert_arg test_size save_processed p =
     (case assemble_features env file_path use_bert_arg p of
        (Inl e, p3) \<Rightarrow> (Inl e, p3)
      | (Inr (df4, X_combined), p3) \<Rightarrow>
          scale_and_split env test_size save_processed df4 X_combined p3)"

subsection \<open>An example environment\<close>

text \<open>
  A concrete environment for the pipeline, on which the properties below are run: two
  log files of six records, a parser that is not needed (the files have no timestamps),
  a set order that reverses, and an embedding model that cannot be loaded. The vectorizer
  and the split stand in for scikit-learn's: they raise where scikit-learn raises on
  these sizes (fewer than three documents cannot satisfy \<^verbatim>\<open>min_df=2\<close> with
  \<^verbatim>\<open>max_df=0.95\<close>; a stratified split needs two members of every class and as many
  test rows and training rows as there are classes), the one text feature is the length
  of the message, and the test set is the last rows of the matrix.
\<close>

definition logs_a :: dataframe where
  "logs_a = \<lparr>nrows = 6, columns =
     [(''message'', [Str ''Disk 7 full'', Str ''login ok'', Str ''login ok'',
                     Str ''service started'', Str ''Disk 7 full'', Str ''service started'']),
      (''level'', [Str ''ERROR'', Str ''INFO'', Str ''INFO'', Str ''INFO'', Str ''ERROR'',
                   Str ''INFO''])]\<rparr>"

definition logs_b :: dataframe where
  "logs_b = \<lparr>nrows = 6, columns =
     [(''message'', [Str ''Disk 7 full'', Str ''login failed'', Str ''login ok'',
                     Str ''service started'', Str ''Disk 7 full'', Str ''login ok'']),
      (''level'', [Str ''ERROR'', Str ''ERROR'', Str ''INFO'', Str ''INFO'', Str ''ERROR'',
                   Str ''INFO''])]\<rparr>"

definition n_test :: "real \<Rightarrow> nat \<Rightarrow> nat" where
  \<comment> \<open>the number of test rows: \<^verbatim>\<open>ceil(test_size * n)\<close>\<close>
  "n_test test_size n = nat \<lceil>test_size * real n\<rceil>"

definition example_split ::
  "matrix \<Rightarrow> cell list \<Rightarrow> real \<Rightarrow> exn + (matrix \<times> matrix \<times> cell list \<times> cell list)" where
  "example_split X y test_size =
     (let n = length X; k = n_test test_size n; classes = remdups y in
      if list_ex (\<lambda>c. count_list y c < 2) classes then
        Inl (Exn ''ValueError'' ''The least populated class in y has only 1 member'')
      else if k < length classes \<or> n - k < length classes then
        Inl (Exn ''ValueError'' ''The test_size should be greater or equal to the number of classes'')
      else Inr (take (n - k) X, drop (n - k) X, take (n - k) y, drop (n - k) y))"

definition example_tfidf :: "string list \<Rightarrow> exn + matrix" where
  "example_tfidf msgs =
     (if length msgs < 3 then
        Inl (Exn ''ValueError'' ''max_df corresponds to < documents than min_df'')
      else Inr (map (\<lambda>m. [Val (real (length m))]) msgs))"

definition example_env :: "nat pp_env" where
  "example_env =
     \<lparr>read_csv = (\<lambda>path.
        if path = ''a.csv'' then Inr logs_a
        else if path = ''b.csv'' then Inr logs_b
        else Inl (Exn ''FileNotFoundError'' path)),
      to_datetime = (\<lambda>ts. Inr (map (\<lambda>c. None) ts)),
      set_order = rev,
      high_error_period = (\<lambda>df dts. map (\<lambda>d. False) dts),
      from_pretrained = (\<lambda>name. Some (Exn ''OSError'' ''offline'')),
      bert_batch = (\<lambda>batch n. Inl (Exn ''RuntimeError'' ''no model'')),
      tfidf_fit_transform = (\<lambda>n msgs. map_sum id (Pair 0) (example_tfidf msgs)),
      tfidf_transform = (\<lambda>v msgs. Inr (map (\<lambda>m. [Val (real (length m))]) msgs)),
      train_test_split = example_split\<rparr>"

definition example_preprocessor :: "nat preprocessor" where
  "example_preprocessor =
     new_preprocessor example_env ''distilbert-base-uncased'' (\<lambda>name. None) []"

text \<open>The frames of the two example runs, after the anomaly flags and after the encoding.\<close>

definition cleaned_a :: "string list" where
  "cleaned_a = [''disk [NUM] full'', ''login ok'', ''login ok'', ''service started'',
     ''disk [NUM] full'', ''service started'']"

definition cleaned_b :: "string list" where
  "cleaned_b = [''disk [NUM] full'', ''login failed'', ''login ok'', ''service started'',
     ''disk [NUM] full'', ''login ok'']"

definition logs_a_flagged :: dataframe where
  "logs_a_flagged = \<lparr>nrows = 6, columns = columns logs_a
     @ [(''cleaned_message'', map Str cleaned_a),
        (''is_anomaly'', [Num 0, Num 0, Num 0, Num 0, Num 0, Num 0])]\<rparr>"

definition logs_a_encoded :: dataframe where
  "logs_a_encoded = \<lparr>nrows = 6, columns = columns logs_a_flagged
     @ [(''level_encoded'', [Num 0, Num 1, Num 1, Num 1, Num 0, Num 1])]\<rparr>"

definition logs_b_flagged :: dataframe where
  "logs_b_flagged = \<lparr>nrows = 6, columns = columns logs_b
     @ [(''cleaned_message'', map Str cleaned_b),
        (''is_anomaly'', [Num 0, Num 0, Num 0, Num 0, Num 0, Num 0])]\<rparr>"

definition logs_b_encoded :: dataframe where
  "logs_b_encoded = \<lparr>nrows = 6, columns = columns logs_b_flagged
     @ [(''level_encoded'', [Num 0, Num 0, Num 1, Num 1, Num 0, Num 1])]\<rparr>"

definition matrix_a :: matrix where
  \<comment> \<open>the assembled matrix of the first run: the encoded level and the text feature\<close>
  "matrix_a = [[Val 0, Val 15], [Val 1, Val 8], [Val 1, Val 8], [Val 1, Val 15],
     [Val 0, Val 15], [Val 1, Val 15]]"

definition matrix_b :: matrix where
  "matrix_b = [[Val 0, Val 15], [Val 0, Val 12], [Val 1, Val 8], [Val 1, Val 15],
     [Val 0, Val 15], [Val 1, Val 8]]"

section \<open>The model bank (enhanced\_model.py)\<close>

subsection \<open>String functions of the standard library\<close>

definition hex_digit :: "nat \<Rightarrow> char" where
  "hex_digit n = (if n < 10 then char_of (48 + n) else char_of (87 + n))"

definition is_printable :: "char \<Rightarrow> bool" where
  \<comment> \<open>\<^verbatim>\<open>str.isprintable\<close> on a code point below 256\<close>
  "is_printable c = ((32 \<le> code c \<and> code c \<le> 126) \<or> (161 \<le> code c \<and> code c \<noteq> 173))"

definition repr_char :: "char \<Rightarrow> char \<Rightarrow> string" where
  "repr_char q c =
     (if c = q \<or> c = CHR 0x5C then [CHR 0x5C, c]
      else if c = CHR 0x09 then [CHR 0x5C, CHR ''t'']
      else if c = CHR 0x0A then [CHR 0x5C, CHR ''n'']
      else if c = CHR 0x0D then [CHR 0x5C, CHR ''r'']
      else if is_printable c then [c]
      else [CHR 0x5C, CHR ''x'', hex_digit (code c div 16), hex_digit (code c mod 16)])"

definition py_repr :: "string \<Rightarrow> string" where
  \<comment> \<open>\<^verbatim>\<open>repr(s)\<close> of a string\<close>
  "py_repr s =
     (let q = (if CHR 0x27 \<in> set s \<and> CHR 0x22 \<notin> set s then CHR 0x22 else CHR 0x27)
      in [q] @ concat (map (repr_char q) s) @ [q])"

fun join :: "string \<Rightarrow> string list \<Rightarrow> string" where
  "join sep [] = []"
| "join sep [x] = x"
| "join sep (x # y # ys) = x @ sep @ join sep (y # ys)"

definition repr_list :: "string list \<Rightarrow> string" where
  \<comment> \<open>\<^verbatim>\<open>str(xs)\<close> of a list of strings\<close>
  "repr_list xs = ''['' @ join '', '' (map py_repr xs) @ '']''"

fun find_sub :: "string \<Rightarrow> string \<Rightarrow> nat option" where
  "find_sub sep [] = (if sep = [] then Some 0 else None)"
| "find_sub sep (c # cs) =
     (if take (length sep) (c # cs) = sep then Some 0 else map_option Suc (find_sub sep cs))"

function py_split :: "string \<Rightarrow> string \<Rightarrow> string list" where
  "py_split sep s =
     (if sep = [] then [s]
      else case find_sub sep s of
             None \<Rightarrow> [s]
           | Some i \<Rightarrow> take i s # py_split sep (drop (i + length sep) s))"
  by pat_completeness auto
termination
proof (relation "measure (\<lambda>(sep, s). length s)")
  show "wf (measure (\<lambda>(sep, s). length s))" by simp
next
  fix sep s :: string and i
  assume "sep \<noteq> []" and f: "find_sub sep s = Some i"
  have "s \<noteq> []" using f \<open>sep \<noteq> []\<close> by (cases s) auto
  then show "((sep, drop (i + length sep) s), (sep, s)) \<in> measure (\<lambda>(sep, s). length s)"
    using \<open>sep \<noteq> []\<close> by (cases s) auto
qed

declare py_split.simps [simp del]

function py_replace :: "string \<Rightarrow> string \<Rightarrow> string \<Rightarrow> string" where
  "py_replace old new s =
     (if old = [] then s
      else case find_sub old s of
             None \<Rightarrow> s
           | Some i \<Rightarrow> take i s @ new @ py_replace old new (drop (i + length old) s))"
  by pat_completeness auto
termination
proof (relation "measure (\<lambda>(old, new, s). length s)")
  show "wf (measure (\<lambda>(old, new, s). length s))" by simp
next
  fix old new s :: string and i
  assume "old \<noteq> []" and f: "find_sub old s = Some i"
  have "s \<noteq> []" using f \<open>old \<noteq> []\<close> by (cases s) auto
  then show "((old, new, drop (i + length old) s), (old, new, s))
      \<in> measure (\<lambda>(old, new, s). length s)"
    using \<open>old \<noteq> []\<close> by (cases s) auto
qed

declare py_replace.simps [simp del]








subsection \<open>The bank and its environment\<close>

text \<open>
  What a registry or a pickle file holds is an estimator (\<open>'m\<close>) or a dictionary of
  reports (\<open>'r\<close>); Python does not tell them apart until a method is called. The bank is
  the fields of \<^verbatim>\<open>EnhancedLogAnalysisModel\<close>, with the files of the working directory
  (in the order the directory lists them) and the output of the module logger.
\<close>

datatype ('m, 'r) obj = Model 'm | Dict "(string \<times> 'r) list"

record ('m, 'r) bank =
  classification_models :: "(string \<times> ('m, 'r) obj) list"
  anomaly_models :: "(string \<times> ('m, 'r) obj) list"
  model_performance :: "('m, 'r) obj"
  bank_label_encoders :: "(string \<times> string list) list"
  is_trained :: bool
  bank_files :: "(string \<times> ('m, 'r) obj) list"
  bank_log :: "log_entry list"

definition new_bank :: "(string \<times> ('m, 'r) obj) list \<Rightarrow> log_entry list \<Rightarrow> ('m, 'r) bank" where
  \<comment> \<open>\<^verbatim>\<open>__init__\<close>, in a process with the given files and earlier log output\<close>
  "new_bank files out =
     \<lparr>classification_models = [], anomaly_models = [], model_performance = Dict [],
      bank_label_encoders = [], is_trained = False, bank_files = files, bank_log = out\<rparr>"

definition info :: "string \<Rightarrow> ('m, 'r) bank \<Rightarrow> ('m, 'r) bank" where
  "info msg b = b\<lparr>bank_log := bank_log b @ [LogInfo msg]\<rparr>"

definition warning :: "string \<Rightarrow> ('m, 'r) bank \<Rightarrow> ('m, 'r) bank" where
  "warning msg b = b\<lparr>bank_log := bank_log b @ [LogWarning msg]\<rparr>"

definition error :: "string \<Rightarrow> ('m, 'r) bank \<Rightarrow> ('m, 'r) bank" where
  "error msg b = b\<lparr>bank_log := bank_log b @ [LogError msg]\<rparr>"

text \<open>
  scikit-learn and the operating system are parameters. \<open>fit_classifier name\<close> fits the
  estimator that \<^verbatim>\<open>train_classification_models\<close> configures under that name;
  \<open>grid_search name\<close> is \<^verbatim>\<open>GridSearchCV(...).fit\<close> with the grid and the base
  estimator chosen for that name, and yields the best estimator, parameters and score.
\<close>

record ('m, 'p) ml_env =
  fit_classifier :: "string \<Rightarrow> matrix \<Rightarrow> cell list \<Rightarrow> exn + 'm"
  cross_val_score :: "'m \<Rightarrow> matrix \<Rightarrow> cell list \<Rightarrow> exn + real list"
  grid_search :: "string \<Rightarrow> matrix \<Rightarrow> cell list \<Rightarrow> exn + ('m \<times> 'p \<times> real)"
  predict :: "'m \<Rightarrow> matrix \<Rightarrow> exn + ndarray"
  has_predict_proba :: "'m \<Rightarrow> bool"
  predict_proba :: "'m \<Rightarrow> matrix \<Rightarrow> exn + ndarray"
  has_decision_function :: "'m \<Rightarrow> bool"
  decision_function :: "'m \<Rightarrow> matrix \<Rightarrow> exn + ndarray"
  format_4f :: "real \<Rightarrow> string"
  repr_params :: "'p \<Rightarrow> string"
  can_write :: "string \<Rightarrow> bool"

subsection \<open>Training and tuning\<close>

definition mean :: "real list \<Rightarrow> real" where
  "mean xs = sum_list xs / real (length xs)"

definition std :: "real list \<Rightarrow> real" where
  "std xs = sqrt (sum_list (map (\<lambda>x. (x - mean xs) * (x - mean xs)) xs) / real (length xs))"

definition classifier_names :: "string list" where
  \<comment> \<open>the keys of \<^verbatim>\<open>models\<close>, in the order of the dictionary display\<close>
  "classifier_names = [''random_forest'', ''logistic_regression'', ''mlp_classifier'']"

definition train_classifier ::
  "('m, 'p) ml_env \<Rightarrow> matrix \<Rightarrow> cell list \<Rightarrow> string \<Rightarrow> ('m, 'r) bank \<Rightarrow> ('m, 'r) bank"
where
  \<comment> \<open>the body of the loop of \<^verbatim>\<open>train_classification_models\<close>\<close>
  "train_classifier env X_train y_train name b =
     (let b1 = info (''Training '' @ name @ ''...'') b in
      case fit_classifier env name X_train y_train of
        Inl e \<Rightarrow> error (''Failed to train '' @ name @ '': '' @ exn_msg e) b1
      | Inr model \<Rightarrow>
          let b2 = b1\<lparr>classification_models :=
                        dict_set (classification_models b1) name (Model model)\<rparr>
          in (case cross_val_score env model X_train y_train of
                Inl e \<Rightarrow> error (''Failed to train '' @ name @ '': '' @ exn_msg e) b2
              | Inr cv_scores \<Rightarrow>
                  info (name @ '' - CV Accuracy: '' @ format_4f env (mean cv_scores)
                        @ '' (+/- '' @ format_4f env (std cv_scores * 2) @ '')'') b2))"

definition train_classification_models ::
  "('m, 'p) ml_env \<Rightarrow> matrix \<Rightarrow> cell list \<Rightarrow> ('m, 'r) bank
     \<Rightarrow> (string \<times> ('m, 'r) obj) list \<times> ('m, 'r) bank"
where
  "train_classification_models env X_train y_train b =
     (let b' = fold (train_classifier env X_train y_train) classifier_names
                 (info ''Training classification models...'' b)
      in (classification_models b', b'))"

datatype ('m, 'p) tuning = BestParams 'p | BestScore real | BestModel 'm

definition hyperparameter_tuning ::
  "('m, 'p) ml_env \<Rightarrow> matrix \<Rightarrow> cell list \<Rightarrow> string \<Rightarrow> ('m, 'r) bank
     \<Rightarrow> (string \<times> ('m, 'p) tuning) list \<times> ('m, 'r) bank"
where
  "hyperparameter_tuning env X_train y_train model_name b =
     (let b1 = info (''Performing hyperparameter tuning for '' @ model_name @ ''...'') b in
      if model_name = ''random_forest'' \<or> model_name = ''logistic_regression'' then
        (case grid_search env model_name X_train y_train of
           Inl e \<Rightarrow>
             ([], error (''Hyperparameter tuning failed for '' @ model_name @ '': '' @ exn_msg e) b1)
         | Inr (best_estimator, best_params, best_score) \<Rightarrow>
             let b2 = b1\<lparr>classification_models :=
                           dict_set (classification_models b1) (model_name @ ''_tuned'')
                             (Model best_estimator)\<rparr>;
                 results = [(''best_params'', BestParams best_params),
                            (''best_score'', BestScore best_score),
                            (''best_model'', BestModel best_estimator)];
                 b3 = info (''Best parameters for '' @ model_name @ '': ''
                            @ repr_params env best_params) b2;
                 b4 = info (''Best CV score: '' @ format_4f env best_score) b3
             in (results, b4))
      else
        ([], warning (''Hyperparameter tuning not implemented for '' @ model_name) b1))"

subsection \<open>Scoring\<close>

definition no_attribute :: "string \<Rightarrow> exn" where
  "no_attribute name =
     Exn ''AttributeError'' (quoted ''dict'' @ '' object has no attribute '' @ quoted name)"

definition predict_log_level ::
  "('m, 'p) ml_env \<Rightarrow> matrix \<Rightarrow> string \<Rightarrow> ('m, 'r) bank \<Rightarrow> exn + (ndarray \<times> ndarray option)"
where
  "predict_log_level env features model_name b =
     (case map_of (classification_models b) model_name of
        None \<Rightarrow> Inl (Exn ''ValueError'' (''Model '' @ quoted model_name
                  @ '' not found. Available models: ''
                  @ repr_list (dict_keys (classification_models b))))
      | Some (Dict _) \<Rightarrow> Inl (no_attribute ''predict'')
      | Some (Model model) \<Rightarrow>
          (case predict env model features of
             Inl e \<Rightarrow> Inl e
           | Inr predictions \<Rightarrow>
               if has_predict_proba env model then
                 (case predict_proba env model features of
                    Inl e \<Rightarrow> Inl e
                  | Inr probabilities \<Rightarrow> Inr (predictions, Some probabilities))
               else Inr (predictions, None)))"

definition detect_anomalies ::
  "('m, 'p) ml_env \<Rightarrow> matrix \<Rightarrow> string \<Rightarrow> ('m, 'r) bank \<Rightarrow> exn + (ndarray \<times> ndarray option)"
where
  "detect_anomalies env features model_name b =
     (case map_of (anomaly_models b) model_name of
        None \<Rightarrow> Inl (Exn ''ValueError'' (''Anomaly model '' @ quoted model_name
                  @ '' not found. Available models: ''
                  @ repr_list (dict_keys (anomaly_models b))))
      | Some (Dict _) \<Rightarrow> Inl (no_attribute ''predict'')
      | Some (Model model) \<Rightarrow>
          (case predict env model features of
             Inl e \<Rightarrow> Inl e
           | Inr anomaly_predictions \<Rightarrow>
               if has_decision_function env model then
                 (case decision_function env model features of
                    Inl e \<Rightarrow> Inl e
                  | Inr anomaly_scores \<Rightarrow> Inr (anomaly_predictions, Some anomaly_scores))
               else Inr (anomaly_predictions, None)))"

subsection \<open>Saving and loading\<close>





definition artifact_name :: "string \<Rightarrow> string \<Rightarrow> exn + string" where
  \<comment> \<open>\<^verbatim>\<open>filepath.split(sep)[1].replace('.pkl', '')\<close>\<close>
  "artifact_name sep filepath =
     (case py_split sep filepath of
        _ # name # _ \<Rightarrow> Inr (py_replace ''.pkl'' [] name)
      | _ \<Rightarrow> Inl (Exn ''IndexError'' ''list index out of range''))"

text \<open>
  One of the two loops of \<^verbatim>\<open>load_models\<close>, over the paths \<^verbatim>\<open>glob\<close> found; the
  result carries the registry as the loop leaves it, also when it fails.
\<close>

fun load_all ::
  "string \<Rightarrow> (string \<times> ('m, 'r) obj) list \<Rightarrow> string list \<Rightarrow> (string \<times> ('m, 'r) obj) list
     \<Rightarrow> (exn option) \<times> (string \<times> ('m, 'r) obj) list"
where
  "load_all sep files [] registry = (None, registry)"
| "load_all sep files (filepath # rest) registry =
     (case artifact_name sep filepath of
        Inl e \<Rightarrow> (Some e, registry)
      | Inr name \<Rightarrow>
          (case map_of files filepath of
             None \<Rightarrow> (Some (Exn ''FileNotFoundError''
                               (''No such file or directory: '' @ quoted filepath)), registry)
           | Some x \<Rightarrow> load_all sep files rest (dict_set registry name x)))"



subsection \<open>Prefixes and names that survive the round trip\<close>







definition written ::
  "string \<Rightarrow> (string \<times> 'a) list \<Rightarrow> (string \<times> 'a) list \<Rightarrow> (string \<times> 'a) list" where
  \<comment> \<open>the directory after one loop of \<^verbatim>\<open>save_models\<close> in which every write succeeds\<close>
  "written stem kvs fs = fold (\<lambda>(k, v) fs. dict_set fs (stem @ k @ ''.pkl'') v) kvs fs"

subsection \<open>An example bank\<close>




section \<open>Properties of the temporal features\<close>

text \<open>
  Claim C4. For every timestamp the parser accepts, \<^verbatim>\<open>extract_temporal_features\<close>
  sets \<open>is_business_hours\<close> to 1 exactly when the hour is between 9 and 17 inclusive
  (and to 0 otherwise), and \<open>is_night\<close> to 1 exactly when the hour is at least 22 or at
  most 6. The witness runs the four boundary times 22:00, 21:59, 06:59 and 07:00.
\<close>

theorem temporal_flags:
  assumes "parse ts = Inr dts" and "i < length dts" and "dts ! i = Some t"
  shows "\<exists>cols bh night.
      extract_temporal_features parse ts = Inr cols
    \<and> map_of cols ''is_business_hours'' = Some bh
    \<and> map_of cols ''is_night'' = Some night
    \<and> length bh = length dts \<and> length night = length dts
    \<and> bh ! i = (if 9 \<le> dt_hour t \<and> dt_hour t \<le> 17 then Num 1 else Num 0)
    \<and> night ! i = (if 22 \<le> dt_hour t \<or> dt_hour t \<le> 6 then Num 1 else Num 0)"
  using assms
  by (simp add: extract_temporal_features_def is_business_hours_of_def is_night_of_def flag_def)

theorem temporal_flags_witness:
  "\<exists>cols night.
      extract_temporal_features
        (\<lambda>ts. Inr (map (\<lambda>(h, m). Some \<lparr>dt_year = 2024, dt_month = 5, dt_day = 17, dt_hour = h,
                   dt_minute = m, dt_second = 0, dt_dayofweek = 4\<rparr>)
                 [(22, 0), (21, 59), (6, 59), (7, 0)]))
        [Str ''2024-05-17 22:00:00'', Str ''2024-05-17 21:59:00'',
         Str ''2024-05-17 06:59:00'', Str ''2024-05-17 07:00:00''] = Inr cols
    \<and> map_of cols ''is_night'' = Some night
    \<and> night = [Num 1, Num 0, Num 1, Num 0]"
proof -
  let ?dts = "map (\<lambda>(h, m). Some \<lparr>dt_year = 2024, dt_month = 5, dt_day = 17, dt_hour = h,
                   dt_minute = m, dt_second = 0, dt_dayofweek = 4\<rparr>)
                 [(22, 0), (21, 59), (6, 59), (7::nat, 0::nat)]"
  let ?parse = "\<lambda>ts :: cell list. (Inr ?dts :: exn + datetime option list)"
  let ?ts = "[Str ''2024-05-17 22:00:00'', Str ''2024-05-17 21:59:00'',
         Str ''2024-05-17 06:59:00'', Str ''2024-05-17 07:00:00'']"
  have p: "?parse ?ts = Inr ?dts" by simp
  let ?t = "\<lambda>h m. \<lparr>dt_year = 2024, dt_month = 5, dt_day = 17, dt_hour = h,
                   dt_minute = m, dt_second = 0, dt_dayofweek = 4\<rparr>"
  have d: "?dts = [Some (?t 22 0), Some (?t 21 59), Some (?t 6 59), Some (?t 7 0)]" by simp
  have p': "?parse ?ts = Inr [Some (?t 22 0), Some (?t 21 59), Some (?t 6 59), Some (?t 7 0)]"
    by simp
  obtain cols night where c: "extract_temporal_features ?parse ?ts = Inr cols"
    "map_of cols ''is_night'' = Some night" "length night = 4" "night ! 0 = Num 1"
    using temporal_flags [where parse = ?parse and ts = ?ts and i = 0 and t = "?t 22 0", OF p']
    by auto
  have c1: "night ! 1 = Num 0"
    using temporal_flags [where parse = ?parse and ts = ?ts and i = 1 and t = "?t 21 59", OF p']
      c(1,2) by auto
  have c2: "night ! 2 = Num 1"
    using temporal_flags [where parse = ?parse and ts = ?ts and i = 2 and t = "?t 6 59", OF p']
      c(1,2) by auto
  have c3: "night ! 3 = Num 0"
    using temporal_flags [where parse = ?parse and ts = ?ts and i = 3 and t = "?t 7 0", OF p']
      c(1,2) by auto
  have "night = [night ! 0, night ! 1, night ! 2, night ! 3]"
    using c(3) by (auto simp: list_eq_iff_nth_eq nth_Cons' less_Suc_eq numeral_eq_Suc)
  with c(4) c1 c2 c3 have "night = [Num 1, Num 0, Num 1, Num 0]"
    by simp
  with c(1,2) show ?thesis by (simp only: d) blast
qed

section \<open>Properties of the model bank\<close>

text \<open>
  Claim C10. For every model name other than \<open>random_forest\<close> and
  \<open>logistic_regression\<close>, \<^verbatim>\<open>hyperparameter_tuning\<close> returns the empty dictionary
  (it raises nothing: the result is a value for every input) and leaves the registry of
  classifiers as it was; it only logs that tuning is not implemented for that name.
\<close>

theorem tuning_not_implemented:
  assumes "model_name \<noteq> ''random_forest''" and "model_name \<noteq> ''logistic_regression''"
  shows "fst (hyperparameter_tuning env X_train y_train model_name b) = []
    \<and> classification_models (snd (hyperparameter_tuning env X_train y_train model_name b))
        = classification_models b
    \<and> bank_log (snd (hyperparameter_tuning env X_train y_train model_name b))
        = bank_log b
          @ [LogInfo (''Performing hyperparameter tuning for '' @ model_name @ ''...''),
             LogWarning (''Hyperparameter tuning not implemented for '' @ model_name)]"
  using assms by (simp add: hyperparameter_tuning_def Let_def info_def warning_def)

theorem tuning_not_implemented_witness:
  "\<forall>(env :: (nat, nat) ml_env) X_train y_train (b :: (nat, nat) bank).
     fst (hyperparameter_tuning env X_train y_train ''mlp_classifier'' b) = []
   \<and> classification_models (snd (hyperparameter_tuning env X_train y_train ''mlp_classifier'' b))
        = classification_models b"
  using tuning_not_implemented [of "''mlp_classifier''"] by auto

text \<open>
  Claim C7. Whatever the bank holds, \<^verbatim>\<open>predict_log_level\<close> with a name that is not a
  key of the classifier registry fails with the not-found error, whose message carries
  the requested name and the list of the registry's keys, and \<^verbatim>\<open>detect_anomalies\<close>
  does the same with the registry of anomaly detectors. The error is Python's
  \<^verbatim>\<open>ValueError\<close>; nothing else is evaluated before it is raised.
\<close>

theorem model_not_found:
  "(model_name \<notin> set (dict_keys (classification_models b)) \<longrightarrow>
      predict_log_level env features model_name b
        = Inl (Exn ''ValueError'' (''Model '' @ quoted model_name
            @ '' not found. Available models: ''
            @ repr_list (dict_keys (classification_models b)))))
   \<and> (model_name \<notin> set (dict_keys (anomaly_models b)) \<longrightarrow>
      detect_anomalies env features model_name b
        = Inl (Exn ''ValueError'' (''Anomaly model '' @ quoted model_name
            @ '' not found. Available models: ''
            @ repr_list (dict_keys (anomaly_models b)))))"
proof (intro conjI impI)
  assume "model_name \<notin> set (dict_keys (classification_models b))"
  then have "map_of (classification_models b) model_name = None"
    by (simp add: dict_keys_def map_of_eq_None_iff)
  then show "predict_log_level env features model_name b
        = Inl (Exn ''ValueError'' (''Model '' @ quoted model_name
            @ '' not found. Available models: ''
            @ repr_list (dict_keys (classification_models b))))"
    by (simp add: predict_log_level_def)
next
  assume "model_name \<notin> set (dict_keys (anomaly_models b))"
  then have "map_of (anomaly_models b) model_name = None"
    by (simp add: dict_keys_def map_of_eq_None_iff)
  then show "detect_anomalies env features model_name b
        = Inl (Exn ''ValueError'' (''Anomaly model '' @ quoted model_name
            @ '' not found. Available models: ''
            @ repr_list (dict_keys (anomaly_models b))))"
    by (simp add: detect_anomalies_def)
qed

theorem model_not_found_witness:
  "\<forall>(env :: (nat, nat) ml_env) features (files :: (string \<times> (nat, nat) obj) list) out.
     predict_log_level env features ''nonexistent''
       ((new_bank files out)\<lparr>classification_models := [(''random_forest'', Model 0)]\<rparr>)
       = Inl (Exn ''ValueError''
           (''Model '' @ [CHR 0x27] @ ''nonexistent'' @ [CHR 0x27] @ '' not found. Available models: [''
             @ [CHR 0x27] @ ''random_forest'' @ [CHR 0x27] @ '']''))
   \<and> detect_anomalies env features ''nonexistent''
       ((new_bank files out)\<lparr>anomaly_models :=
           [(''isolation_forest'', Model 0), (''one_class_svm'', Model 1)]\<rparr>)
       = Inl (Exn ''ValueError''
           (''Anomaly model '' @ [CHR 0x27] @ ''nonexistent'' @ [CHR 0x27]
             @ '' not found. Available models: ['' @ [CHR 0x27] @ ''isolation_forest''
             @ [CHR 0x27] @ '', '' @ [CHR 0x27] @ ''one_class_svm'' @ [CHR 0x27] @ '']''))"
proof (intro allI conjI)
  fix env :: "(nat, nat) ml_env" and features and files :: "(string \<times> (nat, nat) obj) list" and out
  let ?b = "(new_bank files out)\<lparr>classification_models := [(''random_forest'', Model 0)]\<rparr>"
  let ?c = "(new_bank files out)\<lparr>anomaly_models :=
           [(''isolation_forest'', Model 0), (''one_class_svm'', Model 1)]\<rparr>"
  have r1: "repr_list [''random_forest''] = ''['' @ [CHR 0x27] @ ''random_forest'' @ [CHR 0x27] @ '']''"
    by code_simp
  have r2: "repr_list [''isolation_forest'', ''one_class_svm'']
      = ''['' @ [CHR 0x27] @ ''isolation_forest''
             @ [CHR 0x27] @ '', '' @ [CHR 0x27] @ ''one_class_svm'' @ [CHR 0x27] @ '']''"
    by code_simp
  show "predict_log_level env features ''nonexistent'' ?b
       = Inl (Exn ''ValueError''
           (''Model '' @ [CHR 0x27] @ ''nonexistent'' @ [CHR 0x27] @ '' not found. Available models: [''
             @ [CHR 0x27] @ ''random_forest'' @ [CHR 0x27] @ '']''))"
    using model_not_found [of "''nonexistent''" ?b env features] r1
    by (simp add: dict_keys_def quoted_def)
  show "detect_anomalies env features ''nonexistent'' ?c
       = Inl (Exn ''ValueError''
           (''Anomaly model '' @ [CHR 0x27] @ ''nonexistent'' @ [CHR 0x27]
             @ '' not found. Available models: ['' @ [CHR 0x27] @ ''isolation_forest''
             @ [CHR 0x27] @ '', '' @ [CHR 0x27] @ ''one_class_svm'' @ [CHR 0x27] @ '']''))"
    using model_not_found [of "''nonexistent''" ?c env features] r2
    by (simp add: dict_keys_def quoted_def)
qed

lemma map_of_dict_set: "map_of (dict_set d k v) = (map_of d)(k \<mapsto> v)"
  by (induction d) (auto simp: fun_eq_iff)

lemma dict_keys_dict_set:
  "dict_keys (dict_set d k v) = (if k \<in> set (dict_keys d) then dict_keys d else dict_keys d @ [k])"
  by (induction d) (force simp: dict_keys_def)+

lemma train_classifier_models:
  "classification_models (train_classifier env X y name b) =
     (case fit_classifier env name X y of
        Inl e \<Rightarrow> classification_models b
      | Inr m \<Rightarrow> dict_set (classification_models b) name (Model m))"
  by (simp add: train_classifier_def Let_def info_def error_def split: sum.splits)

lemma train_classifier_errors:
  "filter is_error (bank_log (train_classifier env X y name b)) =
     filter is_error (bank_log b) @
     (case fit_classifier env name X y of
        Inl e \<Rightarrow> [LogError (''Failed to train '' @ name @ '': '' @ exn_msg e)]
      | Inr m \<Rightarrow> (case cross_val_score env m X y of
          Inl e \<Rightarrow> [LogError (''Failed to train '' @ name @ '': '' @ exn_msg e)]
        | Inr _ \<Rightarrow> []))"
  by (simp add: train_classifier_def Let_def info_def error_def is_error_def split: sum.splits)

text \<open>
  Claim C6, as amended. \<^verbatim>\<open>train_classification_models\<close> returns for every input, and
  what it returns is the bank's registry. An estimator whose fit raises is logged as
  failed and is not registered by this call: the entry under its name is the one the
  registry held before the call, if any. An estimator whose fit succeeds is registered
  under its name, also when its cross-validation raises afterwards (which is logged as a
  failure too). Starting from an empty registry the returned keys are exactly the names
  whose fit succeeded, in order. The witness trains the three classifiers from an empty
  registry with one of them failing: two artifacts and one logged failure.
\<close>

theorem train_isolates_failures:
  fixes env :: "('m, 'p) ml_env" and b :: "('m, 'r) bank" and X :: matrix and y :: "cell list"
  defines "r \<equiv> train_classification_models env X y b"
  shows "fst r = classification_models (snd r)
    \<and> (\<forall>name. map_of (fst r) name =
          (if name \<in> set classifier_names
           then (case fit_classifier env name X y of
                   Inr m \<Rightarrow> Some (Model m)
                 | Inl e \<Rightarrow> map_of (classification_models b) name)
           else map_of (classification_models b) name))
    \<and> filter is_error (bank_log (snd r)) =
        filter is_error (bank_log b) @
        concat (map (\<lambda>name.
          case fit_classifier env name X y of
            Inl e \<Rightarrow> [LogError (''Failed to train '' @ name @ '': '' @ exn_msg e)]
          | Inr m \<Rightarrow> (case cross_val_score env m X y of
              Inl e \<Rightarrow> [LogError (''Failed to train '' @ name @ '': '' @ exn_msg e)]
            | Inr _ \<Rightarrow> [])) classifier_names)
    \<and> (classification_models b = [] \<longrightarrow>
         dict_keys (fst r) =
           filter (\<lambda>name. case fit_classifier env name X y of Inr _ \<Rightarrow> True | Inl _ \<Rightarrow> False)
             classifier_names)"
proof (intro conjI allI impI)
  show "fst r = classification_models (snd r)"
    by (simp add: r_def train_classification_models_def Let_def)
next
  fix name
  show "map_of (fst r) name =
          (if name \<in> set classifier_names
           then (case fit_classifier env name X y of
                   Inr m \<Rightarrow> Some (Model m)
                 | Inl e \<Rightarrow> map_of (classification_models b) name)
           else map_of (classification_models b) name)"
    by (simp add: r_def train_classification_models_def Let_def classifier_names_def
        train_classifier_models map_of_dict_set info_def split: sum.splits)
next
  show "filter is_error (bank_log (snd r)) =
        filter is_error (bank_log b) @
        concat (map (\<lambda>name.
          case fit_classifier env name X y of
            Inl e \<Rightarrow> [LogError (''Failed to train '' @ name @ '': '' @ exn_msg e)]
          | Inr m \<Rightarrow> (case cross_val_score env m X y of
              Inl e \<Rightarrow> [LogError (''Failed to train '' @ name @ '': '' @ exn_msg e)]
            | Inr _ \<Rightarrow> [])) classifier_names)"
    by (simp add: r_def train_classification_models_def Let_def classifier_names_def
        train_classifier_errors info_def is_error_def)
next
  assume "classification_models b = []"
  then show "dict_keys (fst r) =
           filter (\<lambda>name. case fit_classifier env name X y of Inr _ \<Rightarrow> True | Inl _ \<Rightarrow> False)
             classifier_names"
    by (simp add: r_def train_classification_models_def Let_def classifier_names_def
        train_classifier_models dict_keys_dict_set info_def dict_keys_def split: sum.splits)
qed


theorem train_isolates_failures_witness:
  "dict_keys (fst (train_classification_models
       \<lparr>fit_classifier = (\<lambda>name X y. if name = ''logistic_regression''
            then Inl (Exn ''ValueError'' ''bad solver'') else Inr (length name)),
        cross_val_score = (\<lambda>m X y. Inr [1]),
        grid_search = (\<lambda>name X y. Inl (Exn ''ValueError'' ''unused'')),
        predict = (\<lambda>m X. Inr (Vector [])), has_predict_proba = (\<lambda>m. False),
        predict_proba = (\<lambda>m X. Inr (Vector [])), has_decision_function = (\<lambda>m. False),
        decision_function = (\<lambda>m X. Inr (Vector [])), format_4f = (\<lambda>x. ''1.0000''),
        repr_params = (\<lambda>p :: nat. ''{}''), can_write = (\<lambda>path. True)\<rparr>
       [[Val 1]] [Num 0] (new_bank [] [] :: (nat, nat) bank)))
     = [''random_forest'', ''mlp_classifier'']
   \<and> filter is_error (bank_log (snd (train_classification_models
       \<lparr>fit_classifier = (\<lambda>name X y. if name = ''logistic_regression''
            then Inl (Exn ''ValueError'' ''bad solver'') else Inr (length name)),
        cross_val_score = (\<lambda>m X y. Inr [1]),
        grid_search = (\<lambda>name X y. Inl (Exn ''ValueError'' ''unused'')),
        predict = (\<lambda>m X. Inr (Vector [])), has_predict_proba = (\<lambda>m. False),
        predict_proba = (\<lambda>m X. Inr (Vector [])), has_decision_function = (\<lambda>m. False),
        decision_function = (\<lambda>m X. Inr (Vector [])), format_4f = (\<lambda>x. ''1.0000''),
        repr_params = (\<lambda>p :: nat. ''{}''), can_write = (\<lambda>path. True)\<rparr>
       [[Val 1]] [Num 0] (new_bank [] [] :: (nat, nat) bank))))
     = [LogError ''Failed to train logistic_regression: bad solver'']"
proof -
  let ?env = "\<lparr>fit_classifier = (\<lambda>name X y. if name = ''logistic_regression''
            then Inl (Exn ''ValueError'' ''bad solver'') else Inr (length name)),
        cross_val_score = (\<lambda>m X y. Inr [1]),
        grid_search = (\<lambda>name X y. Inl (Exn ''ValueError'' ''unused'')),
        predict = (\<lambda>m X. Inr (Vector [])), has_predict_proba = (\<lambda>m. False),
        predict_proba = (\<lambda>m X. Inr (Vector [])), has_decision_function = (\<lambda>m. False),
        decision_function = (\<lambda>m X. Inr (Vector [])), format_4f = (\<lambda>x. ''1.0000''),
        repr_params = (\<lambda>p :: nat. ''{}''), can_write = (\<lambda>path. True)\<rparr>"
  let ?b = "new_bank [] [] :: (nat, nat) bank"
  note t = train_isolates_failures [of ?env "[[Val 1]]" "[Num 0]" ?b]
  have e: "classification_models ?b = []" "bank_log ?b = []"
    by (simp_all add: new_bank_def)
  from t have "classification_models ?b = [] \<longrightarrow>
      dict_keys (fst (train_classification_models ?env [[Val 1]] [Num 0] ?b)) =
        filter (\<lambda>name. case fit_classifier ?env name [[Val 1]] [Num 0] of
                  Inr _ \<Rightarrow> True | Inl _ \<Rightarrow> False) classifier_names"
    by (elim conjE)
  with e have k: "dict_keys (fst (train_classification_models ?env [[Val 1]] [Num 0] ?b))
        = [''random_forest'', ''mlp_classifier'']"
    by (simp add: classifier_names_def)
  from t have "filter is_error (bank_log (snd (train_classification_models ?env [[Val 1]] [Num 0] ?b))) =
        filter is_error (bank_log ?b) @
        concat (map (\<lambda>name.
          case fit_classifier ?env name [[Val 1]] [Num 0] of
            Inl e \<Rightarrow> [LogError (''Failed to train '' @ name @ '': '' @ exn_msg e)]
          | Inr m \<Rightarrow> (case cross_val_score ?env m [[Val 1]] [Num 0] of
              Inl e \<Rightarrow> [LogError (''Failed to train '' @ name @ '': '' @ exn_msg e)]
            | Inr _ \<Rightarrow> [])) classifier_names)"
    by (elim conjE)
  with e have l: "filter is_error (bank_log (snd (train_classification_models ?env [[Val 1]] [Num 0] ?b)))
     = [LogError ''Failed to train logistic_regression: bad solver'']"
    by (simp add: classifier_names_def)
  from k l show ?thesis by (rule conjI)
qed

text \<open>
  Claim C6 as stated fails: the returned map is the registry the bank keeps across calls,
  so a classifier whose fit raises is still returned when an earlier call registered
  that name.
\<close>

theorem failed_model_kept_counterexample:
  "fit_classifier
       \<lparr>fit_classifier = (\<lambda>name X y. if name = ''logistic_regression''
            then Inl (Exn ''ValueError'' ''bad solver'') else Inr (length name)),
        cross_val_score = (\<lambda>m X y. Inr [1]),
        grid_search = (\<lambda>name X y. Inl (Exn ''ValueError'' ''unused'')),
        predict = (\<lambda>m X. Inr (Vector [])), has_predict_proba = (\<lambda>m. False),
        predict_proba = (\<lambda>m X. Inr (Vector [])), has_decision_function = (\<lambda>m. False),
        decision_function = (\<lambda>m X. Inr (Vector [])), format_4f = (\<lambda>x. ''1.0000''),
        repr_params = (\<lambda>p :: nat. ''{}''), can_write = (\<lambda>path. True)\<rparr>
       ''logistic_regression'' [[Val 1]] [Num 0] = Inl (Exn ''ValueError'' ''bad solver'')
   \<and> fst (train_classification_models
       \<lparr>fit_classifier = (\<lambda>name X y. if name = ''logistic_regression''
            then Inl (Exn ''ValueError'' ''bad solver'') else Inr (length name)),
        cross_val_score = (\<lambda>m X y. Inr [1]),
        grid_search = (\<lambda>name X y. Inl (Exn ''ValueError'' ''unused'')),
        predict = (\<lambda>m X. Inr (Vector [])), has_predict_proba = (\<lambda>m. False),
        predict_proba = (\<lambda>m X. Inr (Vector [])), has_decision_function = (\<lambda>m. False),
        decision_function = (\<lambda>m X. Inr (Vector [])), format_4f = (\<lambda>x. ''1.0000''),
        repr_params = (\<lambda>p :: nat. ''{}''), can_write = (\<lambda>path. True)\<rparr>
       [[Val 1]] [Num 0]
       ((new_bank [] [] :: (nat, nat) bank)
          \<lparr>classification_models := [(''logistic_regression'', Model 7)]\<rparr>))
     = [(''logistic_regression'', Model 7), (''random_forest'', Model 13),
        (''mlp_classifier'', Model 14)]"
  by (simp add: train_classification_models_def classifier_names_def train_classifier_def
      Let_def info_def error_def new_bank_def)

section \<open>Properties of the categorical encoder\<close>

lemma le_table_Some:
  assumes "le_table classes v = Some i"
  shows "i < length classes \<and> classes ! i = v"
proof -
  from assms have "(v, i) \<in> set (zip classes [0 ..< length classes])"
    by (auto simp: le_table_def dest: map_of_SomeD)
  then obtain k where "k < length classes" "classes ! k = v" "[0 ..< length classes] ! k = i"
    by (auto simp: in_set_zip)
  then show ?thesis by simp
qed

lemma le_table_None: "le_table classes v = None \<longleftrightarrow> v \<notin> set classes"
proof -
  have "fst ` set (zip classes [0 ..< length classes]) = set classes"
    by (metis length_upt map_fst_zip minus_nat.diff_0 set_map)
  then show ?thesis by (simp add: le_table_def map_of_eq_None_iff)
qed

lemma le_fit_props: "sorted (le_fit vals) \<and> distinct (le_fit vals) \<and> set (le_fit vals) = set vals"
  by (simp add: le_fit_def)

text \<open>
  Claim C3, as amended. On the first fit of a categorical column (the column is in the
  frame and has no encoder yet), \<^verbatim>\<open>encode_categorical_features\<close> stores the distinct
  values in ascending order as the encoder's classes and encodes every cell by the
  position of its value in that order: the indices are \<open>0..k-1\<close> in sorted order, not in
  the order of first appearance.
\<close>

theorem first_fit_sorted_order:
  assumes "df_col df col = Some cells" and "map_of (label_encoders p) col = None"
  shows "\<exists>df' p' classes codes.
      encode_categorical_features env df [col] p = (Inr df', p')
    \<and> map_of (label_encoders p') col = Some classes
    \<and> df_col df' (col @ ''_encoded'') = Some (map (\<lambda>i. Num (int i)) codes)
    \<and> classes = sort (remdups (map astype_str cells))
    \<and> length codes = length cells
    \<and> (\<forall>i < length cells. codes ! i < length classes
           \<and> classes ! (codes ! i) = astype_str (cells ! i))"
proof -
  let ?vals = "map astype_str cells"
  let ?classes = "le_fit ?vals"
  let ?codes = "map (\<lambda>v. the (le_table ?classes v)) ?vals"
  let ?df' = "df_assign df (col @ ''_encoded'') (map (\<lambda>i. Num (int i)) ?codes)"
  let ?p' = "p\<lparr>label_encoders := dict_set (label_encoders p) col ?classes\<rparr>"
  have run: "encode_categorical_features env df [col] p = (Inr ?df', ?p')"
    using assms
    by (simp add: encode_categorical_features_def encode_column_def le_fit_transform_def Let_def
        comp_def)
  have enc: "map_of (label_encoders ?p') col = Some ?classes"
    by (simp add: map_of_dict_set)
  have col: "df_col ?df' (col @ ''_encoded'') = Some (map (\<lambda>i. Num (int i)) ?codes)"
    by (simp add: df_col_def df_assign_def map_of_dict_set)
  have codes: "?codes ! i < length ?classes \<and> ?classes ! (?codes ! i) = astype_str (cells ! i)"
    if "i < length cells" for i
  proof -
    have "astype_str (cells ! i) \<in> set ?classes"
      using that by (simp add: le_fit_def)
    then obtain j where "le_table ?classes (astype_str (cells ! i)) = Some j"
      using le_table_None [of ?classes "astype_str (cells ! i)"] by (cases "le_table ?classes (astype_str (cells ! i))") auto
    with le_table_Some [OF this] that show ?thesis by simp
  qed
  have "?classes = sort (remdups ?vals)" by (simp add: le_fit_def)
  with run enc col codes show ?thesis
    by (intro exI [of _ ?df'] exI [of _ ?p'] exI [of _ ?classes] exI [of _ ?codes]) simp
qed

theorem first_fit_sorted_order_witness:
  "\<exists>df' p'.
      encode_categorical_features example_env
        \<lparr>nrows = 3, columns = [(''level'', [Str ''INFO'', Str ''ERROR'', Str ''INFO''])]\<rparr>
        [''level''] example_preprocessor = (Inr df', p')
    \<and> map_of (label_encoders p') ''level'' = Some [''ERROR'', ''INFO'']
    \<and> df_col df' ''level_encoded'' = Some [Num 1, Num 0, Num 1]"
proof -
  let ?df = "\<lparr>nrows = 3, columns = [(''level'', [Str ''INFO'', Str ''ERROR'', Str ''INFO''])]\<rparr>"
  have c: "df_col ?df ''level'' = Some [Str ''INFO'', Str ''ERROR'', Str ''INFO'']"
    by (simp add: df_col_def)
  have n: "map_of (label_encoders example_preprocessor) ''level'' = None"
    by (simp add: example_preprocessor_def new_preprocessor_def example_env_def log_warning_def)
  have s: "sort (remdups (map astype_str [Str ''INFO'', Str ''ERROR'', Str ''INFO'']))
      = [''ERROR'', ''INFO'']"
    by code_simp
  let ?cells = "[Str ''INFO'', Str ''ERROR'', Str ''INFO'']"
  from first_fit_sorted_order [OF c n, of example_env]
  obtain df' p' classes codes where r:
    "encode_categorical_features example_env ?df [''level''] example_preprocessor = (Inr df', p')"
    "map_of (label_encoders p') ''level'' = Some classes"
    "df_col df' (''level'' @ ''_encoded'') = Some (map (\<lambda>i. Num (int i)) codes)"
    "classes = sort (remdups (map astype_str ?cells))"
    "length codes = length ?cells"
    "\<forall>i < length ?cells. codes ! i < length classes
        \<and> classes ! (codes ! i) = astype_str (?cells ! i)"
    by blast
  from r(4) s have cl: "classes = [''ERROR'', ''INFO'']" by simp
  have i0: "codes ! 0 < length classes \<and> classes ! (codes ! 0) = astype_str (?cells ! 0)"
    using r(6) by simp
  have i1: "codes ! 1 < length classes \<and> classes ! (codes ! 1) = astype_str (?cells ! 1)"
    using r(6) by simp
  have i2: "codes ! 2 < length classes \<and> classes ! (codes ! 2) = astype_str (?cells ! 2)"
    using r(6) by simp
  have "codes ! 0 = 1" "codes ! 1 = 0" "codes ! 2 = 1"
    using i0 i1 i2 unfolding cl
    by (auto simp: astype_str_def nth_Cons' less_Suc_eq split: if_splits)
  moreover have "codes = [codes ! 0, codes ! 1, codes ! 2]"
    using r(5) by (auto simp: list_eq_iff_nth_eq nth_Cons' less_Suc_eq numeral_2_eq_2)
  ultimately have "codes = [1, 0, 1]" by simp
  with r(1-3) cl show ?thesis by auto
qed

text \<open>
  Claim C3 as stated fails: fitting on the values \<open>b, a\<close> encodes the first-seen value
  \<open>b\<close> as 1 and \<open>a\<close> as 0.
\<close>

theorem first_seen_order_counterexample:
  "\<exists>df' p'.
      encode_categorical_features example_env
        \<lparr>nrows = 2, columns = [(''level'', [Str ''b'', Str ''a''])]\<rparr>
        [''level''] example_preprocessor = (Inr df', p')
    \<and> df_col df' ''level_encoded'' = Some [Num 1, Num 0]"
proof -
  have n: "map_of (label_encoders example_preprocessor) ''level'' = None"
    by (simp add: example_preprocessor_def new_preprocessor_def example_env_def log_warning_def)
  have s: "le_fit_transform [''b'', ''a''] = ([''a'', ''b''], [1, 0])"
    by code_simp
  show ?thesis
    using n s
    by (simp add: encode_categorical_features_def encode_column_def Let_def df_col_def
        df_assign_def astype_str_def)
qed

text \<open>
  Claim C2 at a failing input. The encoder of \<open>level\<close> is fitted on \<open>a, b\<close>
  (\<open>a\<close> is 0, \<open>b\<close> is 1). A later call with the values \<open>c, a\<close> rebuilds the classes
  as \<^verbatim>\<open>list(known_values) + list(new_values)\<close>, where \<open>known_values\<close> is a set; when
  the set is iterated as \<open>b, a\<close>, the new value \<open>c\<close> gets index 2 and the known value
  \<open>a\<close> is now encoded as 1.
\<close>

theorem extension_reorders_known_values:
  "\<exists>df1 p1 df2 p2.
      encode_categorical_features example_env
        \<lparr>nrows = 2, columns = [(''level'', [Str ''a'', Str ''b''])]\<rparr>
        [''level''] example_preprocessor = (Inr df1, p1)
    \<and> df_col df1 ''level_encoded'' = Some [Num 0, Num 1]
    \<and> map_of (label_encoders p1) ''level'' = Some [''a'', ''b'']
    \<and> encode_categorical_features example_env
        \<lparr>nrows = 2, columns = [(''level'', [Str ''c'', Str ''a''])]\<rparr>
        [''level''] p1 = (Inr df2, p2)
    \<and> df_col df2 ''level_encoded'' = Some [Num 2, Num 1]
    \<and> map_of (label_encoders p2) ''level'' = Some [''b'', ''a'', ''c'']"
proof -
  have n: "label_encoders example_preprocessor = []"
    by (simp add: example_preprocessor_def new_preprocessor_def example_env_def log_warning_def)
  have s: "le_fit_transform [''a'', ''b''] = ([''a'', ''b''], [0, 1])"
    by code_simp
  have t: "le_transform [''b'', ''a'', ''c''] [''c'', ''a''] = Inr [2, 1]"
    by code_simp
  have o: "set_order example_env = rev"
    by (simp add: example_env_def)
  show ?thesis
    by (simp add: n s t o encode_categorical_features_def encode_column_def Let_def df_col_def
        df_assign_def astype_str_def del: le_transform.simps)
qed

section \<open>Properties of the preprocessing pipeline\<close>

subsection \<open>What each stage changes\<close>

lemma encode_column_frame:
  "encode_column env df col enc p = (r, p') \<Longrightarrow>
     use_bert p' = use_bert p \<and> scaler p' = scaler p \<and> tfidf_vectorizer p' = tfidf_vectorizer p
     \<and> logged p' = logged p \<and> disk p' = disk p \<and> bert_model_name p' = bert_model_name p"
  by (auto simp: encode_column_def Let_def split: option.splits sum.splits prod.splits)

lemma encode_columns_frame:
  "encode_columns env df cols enc p = (r, p') \<Longrightarrow>
     use_bert p' = use_bert p \<and> scaler p' = scaler p \<and> tfidf_vectorizer p' = tfidf_vectorizer p
     \<and> logged p' = logged p \<and> disk p' = disk p \<and> bert_model_name p' = bert_model_name p"
proof (induction cols arbitrary: enc p)
  case Nil
  then show ?case by simp
next
  case (Cons col cols)
  obtain r1 p1 where e: "encode_column env df col enc p = (r1, p1)" by (cases "encode_column env df col enc p")
  note f = encode_column_frame [OF e]
  show ?case
  proof (cases r1)
    case (Inl x)
    with Cons.prems e f show ?thesis by simp
  next
    case (Inr enc')
    with Cons.prems e have "encode_columns env df cols enc' p1 = (r, p')" by simp
    from Cons.IH [OF this] f show ?thesis by simp
  qed
qed


lemma get_tfidf_features_frame:
  "get_tfidf_features env msgs n p = (r, p') \<Longrightarrow>
     use_bert p' = use_bert p \<and> scaler p' = scaler p \<and> logged p' = logged p
     \<and> disk p' = disk p \<and> label_encoders p' = label_encoders p
     \<and> (\<forall>X. r = Inr X \<longrightarrow> (\<exists>v. tfidf_vectorizer p' = Some (Fitted v)))"
  by (auto simp: get_tfidf_features_def split: option.splits sum.splits tfidf.splits)

lemma text_features_tfidf:
  assumes "\<not> use_bert p" and "text_features env ub cleaned Xb p = (Inr X, p1)"
  shows "logged p1 = logged p @ [LogInfo ''Using TF-IDF features for text'']
    \<and> (\<exists>v. tfidf_vectorizer p1 = Some (Fitted v))
    \<and> use_bert p1 = use_bert p \<and> scaler p1 = scaler p"
proof -
  let ?q = "log_info ''Using TF-IDF features for text'' p"
  obtain r q' where g: "get_tfidf_features env cleaned 1000 ?q = (r, q')"
    by (cases "get_tfidf_features env cleaned 1000 ?q")
  from assms g obtain tf where "r = Inr tf" "p1 = q'"
    by (auto simp: text_features_def split: sum.splits)
  with get_tfidf_features_frame [OF g] show ?thesis
    by (simp add: log_info_def)
qed

lemma scale_and_split_success:
  assumes "scale_and_split env test_size sv df X p = (Inr res, p')"
  shows "\<exists>y sc mid.
      df_col df ''level_encoded'' = Some y
    \<and> scaler_fit X = Inr sc \<and> scaler p' = Some sc
    \<and> train_test_split env (scaler_transform sc X) y test_size = Inr res
    \<and> logged p' = logged p @ mid
    \<and> LogInfo ''Using BERT embeddings for text features'' \<notin> set mid
    \<and> tfidf_vectorizer p' = tfidf_vectorizer p \<and> use_bert p' = use_bert p"
  using assms
  by (auto simp: scale_and_split_def scaler_fit_transform_def Let_def log_info_def
      save_processed_data_def split: option.splits sum.splits prod.splits if_splits)

lemma nrows_df_assign [simp]: "nrows (df_assign df name vals) = nrows df"
  by (simp add: df_assign_def)

lemma nrows_add_columns [simp]: "nrows (add_columns df cols) = nrows df"
proof -
  have "nrows (fold (\<lambda>(name, vals) d. df_assign d name vals) cols df) = nrows df"
    by (induction cols arbitrary: df) (auto simp: split_def)
  then show ?thesis by (simp add: add_columns_def)
qed

lemma nrows_detect:
  "detect_anomalous_patterns env df = Inr df' \<Longrightarrow> nrows df' = nrows df"
  by (auto simp: detect_anomalous_patterns_def Let_def split: option.splits sum.splits)

lemma nrows_encode_column:
  "encode_column env df col enc p = (Inr enc', p') \<Longrightarrow> nrows enc' = nrows enc"
  by (auto simp: encode_column_def Let_def split: option.splits sum.splits prod.splits)

lemma nrows_encode_columns:
  "encode_columns env df cols enc p = (Inr enc', p') \<Longrightarrow> nrows enc' = nrows enc"
proof (induction cols arbitrary: enc p)
  case Nil
  then show ?case by simp
next
  case (Cons col cols)
  obtain r1 p1 where e: "encode_column env df col enc p = (r1, p1)"
    by (cases "encode_column env df col enc p")
  show ?case
  proof (cases r1)
    case (Inl x)
    with Cons.prems e show ?thesis by simp
  next
    case (Inr enc1)
    with Cons.prems e have "encode_columns env df cols enc1 p1 = (Inr enc', p')" by simp
    from Cons.IH [OF this] nrows_encode_column [OF e [unfolded Inr]] show ?thesis by simp
  qed
qed

lemma length_df_values [simp]: "length (df_values df names) = nrows df"
  by (simp add: df_values_def)

lemma length_hstack: "hstack A B = Inr X \<Longrightarrow> length X = length A"
  by (auto simp: hstack_def split: if_splits)

lemma text_features_rows:
  assumes "text_features env ub cleaned Xb p = (Inr X, p1)"
  shows "length X = length Xb"
  using assms
  by (auto simp: text_features_def dest: length_hstack split: if_splits sum.splits prod.splits)

lemma assemble_features_success:
  assumes "assemble_features env f ub p = (Inr (df4, X), p3)"
  shows "\<exists>df0 msgs df3 p2.
      read_csv env f = Inr df0
    \<and> df_col df0 ''message'' = Some msgs
    \<and> nrows df3 = nrows df0
    \<and> encode_categorical_features env df3 categorical_columns
          (log_info (''Loaded '' @ decimal (nrows df0) @ '' log entries'')
             (log_info (''Starting log preprocessing from '' @ quoted f) p)) = (Inr df4, p2)
    \<and> text_features env ub (cleaned_messages msgs) (df_values df4 (feature_columns df4)) p2
          = (Inr X, p3)"
  using assms unfolding assemble_features_def Let_def
  by (simp split: sum.splits option.splits prod.splits if_splits)
     (use nrows_detect in fastforce)+

lemma preprocess_logs_success:
  assumes "preprocess_logs env f ub ts sv p = (Inr res, p')"
  shows "\<exists>df0 msgs df3 df4 p2 X p3.
      read_csv env f = Inr df0
    \<and> df_col df0 ''message'' = Some msgs
    \<and> encode_categorical_features env df3 categorical_columns
          (log_info (''Loaded '' @ decimal (nrows df0) @ '' log entries'')
             (log_info (''Starting log preprocessing from '' @ quoted f) p)) = (Inr df4, p2)
    \<and> text_features env ub (cleaned_messages msgs) (df_values df4 (feature_columns df4)) p2
          = (Inr X, p3)
    \<and> scale_and_split env ts sv df4 X p3 = (Inr res, p')"
proof -
  from assms obtain df4 X p3 where a: "assemble_features env f ub p = (Inr (df4, X), p3)"
    and s: "scale_and_split env ts sv df4 X p3 = (Inr res, p')"
    by (auto simp: preprocess_logs_def split: sum.splits prod.splits)
  from assemble_features_success [OF a] s show ?thesis by blast
qed

lemma encode_column_scaler:
  "encode_column env df col enc (p\<lparr>scaler := s\<rparr>) =
     (case encode_column env df col enc p of (r, p') \<Rightarrow> (r, p'\<lparr>scaler := s\<rparr>))"
  by (simp add: encode_column_def Let_def split: option.splits sum.splits prod.splits)

lemma encode_columns_scaler:
  "encode_columns env df cols enc (p\<lparr>scaler := s\<rparr>) =
     (case encode_columns env df cols enc p of (r, p') \<Rightarrow> (r, p'\<lparr>scaler := s\<rparr>))"
proof (induction cols arbitrary: enc p)
  case Nil
  then show ?case by simp
next
  case (Cons col cols)
  show ?case
    by (cases "encode_column env df col enc p")
       (auto simp: encode_column_scaler Cons.IH split: sum.splits)
qed

lemma get_tfidf_features_scaler:
  "get_tfidf_features env msgs n (p\<lparr>scaler := s\<rparr>) =
     (case get_tfidf_features env msgs n p of (r, p') \<Rightarrow> (r, p'\<lparr>scaler := s\<rparr>))"
  by (simp add: get_tfidf_features_def split: option.splits sum.splits prod.splits tfidf.splits)

lemma get_bert_embeddings_scaler:
  "get_bert_embeddings env msgs n (p\<lparr>scaler := s\<rparr>) =
     (case get_bert_embeddings env msgs n p of (r, p') \<Rightarrow> (r, p'\<lparr>scaler := s\<rparr>))"
  by (simp add: get_bert_embeddings_def Let_def log_info_def log_warning_def)

lemma log_scaler:
  "log_info m (p\<lparr>scaler := s\<rparr>) = (log_info m p)\<lparr>scaler := s\<rparr>"
  "log_warning m (p\<lparr>scaler := s\<rparr>) = (log_warning m p)\<lparr>scaler := s\<rparr>"
  "log_error m (p\<lparr>scaler := s\<rparr>) = (log_error m p)\<lparr>scaler := s\<rparr>"
  by (simp_all add: log_info_def log_warning_def log_error_def)

lemma text_features_scaler:
  "text_features env ub cleaned Xb (p\<lparr>scaler := s\<rparr>) =
     (case text_features env ub cleaned Xb p of (r, p') \<Rightarrow> (r, p'\<lparr>scaler := s\<rparr>))"
  by (simp add: text_features_def log_scaler get_tfidf_features_scaler get_bert_embeddings_scaler
      split: sum.splits prod.splits)

lemma scale_and_split_scaler:
  assumes "scale_and_split env ts sv df X p = (Inr res, p')"
  shows "scale_and_split env ts sv df X (p\<lparr>scaler := s\<rparr>) = (Inr res, p')"
  using assms
  by (auto simp: scale_and_split_def Let_def log_info_def save_processed_data_def
      split: option.splits sum.splits prod.splits if_splits)

lemma assemble_features_scaler:
  "assemble_features env f ub (p\<lparr>scaler := s\<rparr>) =
     (case assemble_features env f ub p of (r, p') \<Rightarrow> (r, p'\<lparr>scaler := s\<rparr>))"
  unfolding assemble_features_def Let_def
  by (simp add: log_scaler encode_categorical_features_def encode_columns_scaler
      text_features_scaler split: sum.splits option.splits prod.splits)

lemma preprocess_logs_scaler:
  assumes "preprocess_logs env f ub ts sv p = (Inr res, p')"
  shows "preprocess_logs env f ub ts sv (p\<lparr>scaler := s\<rparr>) = (Inr res, p')"
  using assms
  by (auto simp: preprocess_logs_def assemble_features_scaler scale_and_split_scaler
      split: sum.splits prod.splits)

lemma load_processed_data_scaler:
  assumes "load_processed_data p = (Inr arrays, q)"
  shows "\<exists>objects. disk p ''preprocessor_objects.pkl'' = Some (PickleFile objects)
     \<and> scaler q = so_scaler objects"
  using assms
  by (auto simp: load_processed_data_def pickle_load_def log_info_def
      split: sum.splits option.splits pp_file.splits)

subsection \<open>The two example runs\<close>

lemma assemble_features_run:
  assumes "read_csv env f = Inr df0" and "df_col df0 ''message'' = Some msgs"
    and "df_col df0 ''timestamp'' = None"
    and "detect_anomalous_patterns env
           (df_assign df0 ''cleaned_message'' (map Str (cleaned_messages msgs))) = Inr df3"
    and "encode_categorical_features env df3 categorical_columns
           (log_info (''Loaded '' @ decimal (nrows df0) @ '' log entries'')
             (log_info (''Starting log preprocessing from '' @ quoted f) p)) = (Inr df4, p2)"
    and "text_features env ub (cleaned_messages msgs) (df_values df4 (feature_columns df4)) p2
           = (Inr X, p3)"
  shows "assemble_features env f ub p = (Inr (df4, X), p3)"
proof -
  have "df_col (df_assign df0 ''cleaned_message'' (map Str (cleaned_messages msgs))) ''timestamp''
      = None"
    using assms(3) by (simp add: df_col_def df_assign_def map_of_dict_set)
  with assms show ?thesis
    by (simp add: assemble_features_def Let_def)
qed

lemma scale_and_split_run:
  assumes "df_col df ''level'' = Some l" and "df_col df ''level_encoded'' = Some y"
    and "scaler_fit X = Inr sc"
    and "train_test_split env (scaler_transform sc X) y ts = Inr (a, b, c, d)"
  shows "scale_and_split env ts False df X p =
     (Inr (a, b, c, d),
      log_info (''Training set: '' @ shape_str a @ '', Test set: '' @ shape_str b)
        (p\<lparr>scaler := Some sc\<rparr>))"
  using assms by (simp add: scale_and_split_def scaler_fit_transform_def Let_def)

lemma example_cleaned:
  "clean_log_message (Str ''Disk 7 full'') = ''disk [NUM] full''"
  "clean_log_message (Str ''login ok'') = ''login ok''"
  "clean_log_message (Str ''login failed'') = ''login failed''"
  "clean_log_message (Str ''service started'') = ''service started''"
  by code_simp+

lemma example_a_cleaned:
  "cleaned_messages [Str ''Disk 7 full'', Str ''login ok'', Str ''login ok'',
     Str ''service started'', Str ''Disk 7 full'', Str ''service started''] = cleaned_a"
  by (simp only: cleaned_messages_def list.map example_cleaned cleaned_a_def)

lemma example_b_cleaned:
  "cleaned_messages [Str ''Disk 7 full'', Str ''login failed'', Str ''login ok'',
     Str ''service started'', Str ''Disk 7 full'', Str ''login ok''] = cleaned_b"
  by (simp only: cleaned_messages_def list.map example_cleaned cleaned_b_def)

lemma six: "replicate 6 x = [x, x, x, x, x, x]" "[0 ..< 6] = [0, 1, 2, 3, 4, 5]"
  by (simp_all add: numeral_eq_Suc upt_rec)

lemma example_a_flagged:
  "detect_anomalous_patterns example_env (df_assign logs_a ''cleaned_message'' (map Str cleaned_a))
   = Inr logs_a_flagged"
  by (simp add: detect_anomalous_patterns_def df_assign_def df_col_def logs_a_def
      logs_a_flagged_def six)

lemma example_b_flagged:
  "detect_anomalous_patterns example_env (df_assign logs_b ''cleaned_message'' (map Str cleaned_b))
   = Inr logs_b_flagged"
  by (simp add: detect_anomalous_patterns_def df_assign_def df_col_def logs_b_def
      logs_b_flagged_def six)

lemma example_a_fit:
  "le_fit_transform [''ERROR'', ''INFO'', ''INFO'', ''INFO'', ''ERROR'', ''INFO'']
     = ([''ERROR'', ''INFO''], [0, 1, 1, 1, 0, 1])"
  by code_simp

lemma example_b_transform:
  "le_transform [''ERROR'', ''INFO''] [''ERROR'', ''ERROR'', ''INFO'', ''INFO'', ''ERROR'', ''INFO'']
     = Inr [0, 0, 1, 1, 0, 1]"
  by code_simp

lemma example_a_encoded:
  assumes "label_encoders p = []"
  shows "encode_categorical_features example_env logs_a_flagged categorical_columns p
     = (Inr logs_a_encoded, p\<lparr>label_encoders := [(''level'', [''ERROR'', ''INFO''])]\<rparr>)"
  using assms
  by (simp add: example_a_fit encode_categorical_features_def encode_column_def Let_def
      df_col_def df_assign_def astype_str_def categorical_columns_def logs_a_flagged_def
      logs_a_encoded_def logs_a_def cleaned_a_def)

lemma example_b_encoded:
  assumes "label_encoders p = [(''level'', [''ERROR'', ''INFO''])]"
  shows "encode_categorical_features example_env logs_b_flagged categorical_columns p
     = (Inr logs_b_encoded, p)"
proof -
  have "p\<lparr>label_encoders := [(''level'', [''ERROR'', ''INFO''])]\<rparr> = p"
    using assms by (metis preprocessor.update_convs(2) preprocessor.surjective)
  then show ?thesis
    using assms
    by (simp add: example_b_transform encode_categorical_features_def encode_column_def Let_def
        df_col_def df_assign_def astype_str_def categorical_columns_def logs_b_flagged_def
        logs_b_encoded_def logs_b_def cleaned_b_def del: le_transform.simps)
qed

lemma example_a_basic:
  "df_values logs_a_encoded (feature_columns logs_a_encoded)
     = [[Val 0], [Val 1], [Val 1], [Val 1], [Val 0], [Val 1]]"
  by (simp add: df_values_def feature_columns_def in_columns_def temporal_cols_def
      categorical_columns_def anomaly_cols_def logs_a_encoded_def logs_a_flagged_def logs_a_def
      df_col_def cell_entry_def six)

lemma example_b_basic:
  "df_values logs_b_encoded (feature_columns logs_b_encoded)
     = [[Val 0], [Val 0], [Val 1], [Val 1], [Val 0], [Val 1]]"
  by (simp add: df_values_def feature_columns_def in_columns_def temporal_cols_def
      categorical_columns_def anomaly_cols_def logs_b_encoded_def logs_b_flagged_def logs_b_def
      df_col_def cell_entry_def six)

lemma example_a_text:
  assumes "\<not> use_bert p" and "tfidf_vectorizer p = None"
  shows "text_features example_env ub cleaned_a
      [[Val 0], [Val 1], [Val 1], [Val 1], [Val 0], [Val 1]] p
    = (Inr matrix_a,
       (log_info ''Using TF-IDF features for text'' p)\<lparr>tfidf_vectorizer := Some (Fitted 0)\<rparr>)"
  using assms
  by (simp add: text_features_def get_tfidf_features_def example_env_def example_tfidf_def
      hstack_def log_info_def cleaned_a_def matrix_a_def)

lemma example_b_text:
  assumes "\<not> use_bert p" and "tfidf_vectorizer p = Some (Fitted 0)"
  shows "text_features example_env ub cleaned_b
      [[Val 0], [Val 0], [Val 1], [Val 1], [Val 0], [Val 1]] p
    = (Inr matrix_b, log_info ''Using TF-IDF features for text'' p)"
  using assms
  by (simp add: text_features_def get_tfidf_features_def example_env_def hstack_def log_info_def
      cleaned_b_def matrix_b_def)

lemma example_a_scaler:
  "\<exists>sc. scaler_fit matrix_a = Inr sc \<and> sc_mean sc = [Val (2 / 3), Val (38 / 3)]"
  by (simp add: scaler_fit_def has_obj_def n_features_def matrix_columns_def nan_mean_def
      Let_def numeral_2_eq_2 matrix_a_def)

lemma example_b_scaler:
  "\<exists>sc. scaler_fit matrix_b = Inr sc \<and> sc_mean sc = [Val (1 / 2), Val (73 / 6)]"
  by (simp add: scaler_fit_def has_obj_def n_features_def matrix_columns_def nan_mean_def
      Let_def numeral_2_eq_2 matrix_b_def)

lemma example_train_only:
  "\<exists>sc. scaler_fit (take 4 matrix_a) = Inr sc \<and> sc_mean sc = [Val (3 / 4), Val (23 / 2)]"
  by (simp add: scaler_fit_def has_obj_def n_features_def matrix_columns_def nan_mean_def
      Let_def numeral_2_eq_2 matrix_a_def)

lemma example_split_a:
  assumes "length S = 6"
  shows "example_split S [Num 0, Num 1, Num 1, Num 1, Num 0, Num 1] (1 / 5)
     = Inr (take 4 S, drop 4 S, [Num 0, Num 1, Num 1, Num 1], [Num 0, Num 1])"
  using assms by (simp add: example_split_def n_test_def Let_def)

lemma example_split_b:
  assumes "length S = 6"
  shows "example_split S [Num 0, Num 0, Num 1, Num 1, Num 0, Num 1] (1 / 5)
     = Inr (take 4 S, drop 4 S, [Num 0, Num 0, Num 1, Num 1], [Num 0, Num 1])"
  using assms by (simp add: example_split_def n_test_def Let_def)

lemma example_run_a:
  assumes "label_encoders p = []" and "\<not> use_bert p" and "tfidf_vectorizer p = None"
  shows "\<exists>res p' sc. preprocess_logs example_env ''a.csv'' ub (1 / 5) False p = (Inr res, p')
     \<and> scaler p' = Some sc \<and> sc_mean sc = [Val (2 / 3), Val (38 / 3)]
     \<and> label_encoders p' = [(''level'', [''ERROR'', ''INFO''])]
     \<and> tfidf_vectorizer p' = Some (Fitted 0) \<and> \<not> use_bert p'
     \<and> fst res = take 4 (scaler_transform sc matrix_a)"
proof -
  let ?msgs = "[Str ''Disk 7 full'', Str ''login ok'', Str ''login ok'',
     Str ''service started'', Str ''Disk 7 full'', Str ''service started'']"
  let ?q = "log_info (''Loaded '' @ decimal (nrows logs_a) @ '' log entries'')
             (log_info (''Starting log preprocessing from '' @ quoted ''a.csv'') p)"
  let ?p2 = "?q\<lparr>label_encoders := [(''level'', [''ERROR'', ''INFO''])]\<rparr>"
  let ?p3 = "(log_info ''Using TF-IDF features for text'' ?p2)\<lparr>tfidf_vectorizer := Some (Fitted 0)\<rparr>"
  have q: "label_encoders ?q = []" "\<not> use_bert ?p2" "tfidf_vectorizer ?p2 = None"
    using assms by (simp_all add: log_info_def)
  have r1: "read_csv example_env ''a.csv'' = Inr logs_a" by (simp add: example_env_def)
  have r2: "df_col logs_a ''message'' = Some ?msgs" by (simp add: df_col_def logs_a_def)
  have r3: "df_col logs_a ''timestamp'' = None" by (simp add: df_col_def logs_a_def)
  have r4: "detect_anomalous_patterns example_env
      (df_assign logs_a ''cleaned_message'' (map Str (cleaned_messages ?msgs))) = Inr logs_a_flagged"
    by (simp only: example_a_cleaned example_a_flagged)
  have r5: "encode_categorical_features example_env logs_a_flagged categorical_columns ?q
      = (Inr logs_a_encoded, ?p2)"
    by (rule example_a_encoded [OF q(1)])
  have r6: "text_features example_env ub (cleaned_messages ?msgs)
      (df_values logs_a_encoded (feature_columns logs_a_encoded)) ?p2 = (Inr matrix_a, ?p3)"
    by (simp only: example_a_cleaned example_a_basic example_a_text [OF q(2,3)])
  have asm: "assemble_features example_env ''a.csv'' ub p = (Inr (logs_a_encoded, matrix_a), ?p3)"
    by (rule assemble_features_run [OF r1 r2 r3 r4 r5 r6])
  obtain sc where sc: "scaler_fit matrix_a = Inr sc" "sc_mean sc = [Val (2 / 3), Val (38 / 3)]"
    using example_a_scaler by blast
  let ?y = "[Num 0, Num 1, Num 1, Num 1, Num 0, Num 1]"
  have l: "df_col logs_a_encoded ''level''
      = Some [Str ''ERROR'', Str ''INFO'', Str ''INFO'', Str ''INFO'', Str ''ERROR'', Str ''INFO'']"
    "df_col logs_a_encoded ''level_encoded'' = Some ?y"
    by (simp_all add: df_col_def logs_a_encoded_def logs_a_flagged_def logs_a_def)
  let ?S = "scaler_transform sc matrix_a"
  have "length ?S = 6" by (simp add: scaler_transform_def matrix_a_def)
  from example_split_a [OF this]
  have sp: "train_test_split example_env ?S ?y (1 / 5)
      = Inr (take 4 ?S, drop 4 ?S, [Num 0, Num 1, Num 1, Num 1], [Num 0, Num 1])"
    by (simp add: example_env_def)
  note fin = scale_and_split_run [OF l sc(1) sp, of ?p3]
  have run: "preprocess_logs example_env ''a.csv'' ub (1 / 5) False p
      = scale_and_split example_env (1 / 5) False logs_a_encoded matrix_a ?p3"
    by (simp add: preprocess_logs_def asm)
  show ?thesis
    unfolding run fin using sc(2) assms
    by (simp add: log_info_def)
qed

lemma example_run_b:
  assumes "label_encoders p = [(''level'', [''ERROR'', ''INFO''])]" and "\<not> use_bert p"
    and "tfidf_vectorizer p = Some (Fitted 0)"
  shows "\<exists>res p' sc. preprocess_logs example_env ''b.csv'' ub (1 / 5) False p = (Inr res, p')
     \<and> scaler p' = Some sc \<and> sc_mean sc = [Val (1 / 2), Val (73 / 6)]"
proof -
  let ?msgs = "[Str ''Disk 7 full'', Str ''login failed'', Str ''login ok'',
     Str ''service started'', Str ''Disk 7 full'', Str ''login ok'']"
  let ?q = "log_info (''Loaded '' @ decimal (nrows logs_b) @ '' log entries'')
             (log_info (''Starting log preprocessing from '' @ quoted ''b.csv'') p)"
  let ?p3 = "log_info ''Using TF-IDF features for text'' ?q"
  have q: "label_encoders ?q = [(''level'', [''ERROR'', ''INFO''])]" "\<not> use_bert ?q"
    "tfidf_vectorizer ?q = Some (Fitted 0)"
    using assms by (simp_all add: log_info_def)
  have r1: "read_csv example_env ''b.csv'' = Inr logs_b" by (simp add: example_env_def)
  have r2: "df_col logs_b ''message'' = Some ?msgs" by (simp add: df_col_def logs_b_def)
  have r3: "df_col logs_b ''timestamp'' = None" by (simp add: df_col_def logs_b_def)
  have r4: "detect_anomalous_patterns example_env
      (df_assign logs_b ''cleaned_message'' (map Str (cleaned_messages ?msgs))) = Inr logs_b_flagged"
    by (simp only: example_b_cleaned example_b_flagged)
  have r5: "encode_categorical_features example_env logs_b_flagged categorical_columns ?q
      = (Inr logs_b_encoded, ?q)"
    by (rule example_b_encoded [OF q(1)])
  have r6: "text_features example_env ub (cleaned_messages ?msgs)
      (df_values logs_b_encoded (feature_columns logs_b_encoded)) ?q = (Inr matrix_b, ?p3)"
    by (simp only: example_b_cleaned example_b_basic example_b_text [OF q(2,3)])
  have asm: "assemble_features example_env ''b.csv'' ub p = (Inr (logs_b_encoded, matrix_b), ?p3)"
    by (rule assemble_features_run [OF r1 r2 r3 r4 r5 r6])
  obtain sc where sc: "scaler_fit matrix_b = Inr sc" "sc_mean sc = [Val (1 / 2), Val (73 / 6)]"
    using example_b_scaler by blast
  let ?y = "[Num 0, Num 0, Num 1, Num 1, Num 0, Num 1]"
  have l: "df_col logs_b_encoded ''level''
      = Some [Str ''ERROR'', Str ''ERROR'', Str ''INFO'', Str ''INFO'', Str ''ERROR'', Str ''INFO'']"
    "df_col logs_b_encoded ''level_encoded'' = Some ?y"
    by (simp_all add: df_col_def logs_b_encoded_def logs_b_flagged_def logs_b_def)
  let ?S = "scaler_transform sc matrix_b"
  have "length ?S = 6" by (simp add: scaler_transform_def matrix_b_def)
  from example_split_b [OF this]
  have sp: "train_test_split example_env ?S ?y (1 / 5)
      = Inr (take 4 ?S, drop 4 ?S, [Num 0, Num 0, Num 1, Num 1], [Num 0, Num 1])"
    by (simp add: example_env_def)
  note fin = scale_and_split_run [OF l sc(1) sp, of ?p3]
  have run: "preprocess_logs example_env ''b.csv'' ub (1 / 5) False p
      = scale_and_split example_env (1 / 5) False logs_b_encoded matrix_b ?p3"
    by (simp add: preprocess_logs_def asm)
  show ?thesis
    unfolding run fin using sc(2) by (simp add: log_info_def)
qed

lemma example_preprocessor_fresh:
  "label_encoders example_preprocessor = []" "\<not> use_bert example_preprocessor"
  "tfidf_vectorizer example_preprocessor = None"
  by (simp_all add: example_preprocessor_def new_preprocessor_def example_env_def log_warning_def)

subsection \<open>The text backend\<close>

text \<open>
  Claim C9. When the embedding model did not load (\<open>use_bert\<close> is false),
  \<^verbatim>\<open>get_bert_embeddings\<close> returns the empty array for every list of messages and
  raises nothing, the text-feature step of \<^verbatim>\<open>preprocess_logs\<close> is the TF-IDF one
  whatever the \<open>use_bert\<close> argument is, and a run of \<^verbatim>\<open>preprocess_logs\<close> that
  returns logs the TF-IDF backend, never the embedding backend, and leaves a fitted
  vectorizer.
\<close>

theorem bert_unavailable_uses_tfidf:
  assumes "\<not> use_bert p"
  shows "get_bert_embeddings env messages max_length p
           = (Inr [], log_warning ''BERT model not available'' p)
    \<and> text_features env use_bert_arg cleaned X_basic p =
        (case get_tfidf_features env cleaned 1000
                (log_info ''Using TF-IDF features for text'' p) of
           (Inl e, p1) \<Rightarrow> (Inl e, p1)
         | (Inr tf, p1) \<Rightarrow> (hstack X_basic tf, p1))
    \<and> (\<forall>res p'. preprocess_logs env file_path use_bert_arg test_size save_processed p
                    = (Inr res, p') \<longrightarrow>
          (\<exists>n mid. logged p' = logged p
               @ [LogInfo (''Starting log preprocessing from '' @ quoted file_path),
                  LogInfo (''Loaded '' @ decimal n @ '' log entries''),
                  LogInfo ''Using TF-IDF features for text''] @ mid
             \<and> LogInfo ''Using BERT embeddings for text features'' \<notin> set mid)
          \<and> (\<exists>v. tfidf_vectorizer p' = Some (Fitted v)))"
proof (intro conjI allI impI)
  show "get_bert_embeddings env messages max_length p
           = (Inr [], log_warning ''BERT model not available'' p)"
    using assms by (simp add: get_bert_embeddings_def)
  show "text_features env use_bert_arg cleaned X_basic p =
        (case get_tfidf_features env cleaned 1000
                (log_info ''Using TF-IDF features for text'' p) of
           (Inl e, p1) \<Rightarrow> (Inl e, p1)
         | (Inr tf, p1) \<Rightarrow> (hstack X_basic tf, p1))"
    using assms by (simp add: text_features_def)
next
  fix res p'
  assume run: "preprocess_logs env file_path use_bert_arg test_size save_processed p = (Inr res, p')"
  from preprocess_logs_success [OF run]
  obtain df0 msgs df3 df4 p2 X p3 where s0:
    "read_csv env file_path = Inr df0" "df_col df0 ''message'' = Some msgs" and s:
    "encode_categorical_features env df3 categorical_columns
          (log_info (''Loaded '' @ decimal (nrows df0) @ '' log entries'')
             (log_info (''Starting log preprocessing from '' @ quoted file_path) p)) = (Inr df4, p2)"
    "text_features env use_bert_arg (cleaned_messages msgs)
        (df_values df4 (feature_columns df4)) p2 = (Inr X, p3)"
    "scale_and_split env test_size save_processed df4 X p3 = (Inr res, p')"
    by (elim exE conjE) (rule that; assumption)
  let ?q = "log_info (''Loaded '' @ decimal (nrows df0) @ '' log entries'')
             (log_info (''Starting log preprocessing from '' @ quoted file_path) p)"
  from encode_columns_frame [OF s(1) [unfolded encode_categorical_features_def]]
  have e: "use_bert p2 = use_bert ?q" "logged p2 = logged ?q" by simp_all
  then have nb: "\<not> use_bert p2" using assms by (simp add: log_info_def)
  note t = text_features_tfidf [OF nb s(2)]
  from scale_and_split_success [OF s(3)] obtain mid where m:
    "logged p' = logged p3 @ mid"
    "LogInfo ''Using BERT embeddings for text features'' \<notin> set mid"
    "tfidf_vectorizer p' = tfidf_vectorizer p3"
    by blast
  have "logged p' = logged p
               @ [LogInfo (''Starting log preprocessing from '' @ quoted file_path),
                  LogInfo (''Loaded '' @ decimal (nrows df0) @ '' log entries''),
                  LogInfo ''Using TF-IDF features for text''] @ mid"
    using m(1) t e(2) by (simp add: log_info_def)
  with m(2) show "\<exists>n mid. logged p' = logged p
               @ [LogInfo (''Starting log preprocessing from '' @ quoted file_path),
                  LogInfo (''Loaded '' @ decimal n @ '' log entries''),
                  LogInfo ''Using TF-IDF features for text''] @ mid
             \<and> LogInfo ''Using BERT embeddings for text features'' \<notin> set mid"
    by blast
  from t m(3) show "\<exists>v. tfidf_vectorizer p' = Some (Fitted v)" by simp
qed

theorem bert_unavailable_uses_tfidf_witness:
  "get_bert_embeddings example_env [''ok''] 128 example_preprocessor
     = (Inr [], log_warning ''BERT model not available'' example_preprocessor)
   \<and> (\<exists>res p' n mid.
        preprocess_logs example_env ''a.csv'' True (1 / 5) False example_preprocessor = (Inr res, p')
      \<and> logged p' = logged example_preprocessor
           @ [LogInfo (''Starting log preprocessing from '' @ quoted ''a.csv''),
              LogInfo (''Loaded '' @ decimal n @ '' log entries''),
              LogInfo ''Using TF-IDF features for text''] @ mid
      \<and> LogInfo ''Using BERT embeddings for text features'' \<notin> set mid
      \<and> (\<exists>v. tfidf_vectorizer p' = Some (Fitted v)))"
proof -
  note t = bert_unavailable_uses_tfidf [OF example_preprocessor_fresh(2),
      of example_env _ _ True _ _ "''a.csv''" "1 / 5" False]
  from example_run_a [OF example_preprocessor_fresh, of True]
  obtain res p' where a:
    "preprocess_logs example_env ''a.csv'' True (1 / 5) False example_preprocessor = (Inr res, p')"
    by blast
  from t [of "[''ok'']" 128] have g: "get_bert_embeddings example_env [''ok''] 128 example_preprocessor
     = (Inr [], log_warning ''BERT model not available'' example_preprocessor)"
    by blast
  from t a have "(\<exists>n mid. logged p' = logged example_preprocessor
               @ [LogInfo (''Starting log preprocessing from '' @ quoted ''a.csv''),
                  LogInfo (''Loaded '' @ decimal n @ '' log entries''),
                  LogInfo ''Using TF-IDF features for text''] @ mid
             \<and> LogInfo ''Using BERT embeddings for text features'' \<notin> set mid)
          \<and> (\<exists>v. tfidf_vectorizer p' = Some (Fitted v))"
    by blast
  with a g show ?thesis by blast
qed

subsection \<open>The scaler\<close>

text \<open>
  Claim C5, as amended. Every call of \<^verbatim>\<open>preprocess_logs\<close> that returns has fitted the
  scaler anew on the whole assembled feature matrix, which has one row for each record
  of the file and is split into training and test rows only afterwards; the state the
  scaler had before the call has no influence on the result. \<^verbatim>\<open>load_processed_data\<close>
  does not fit: it installs the scaler of the saved objects.
\<close>

theorem scaler_refit_on_every_call:
  "(preprocess_logs env file_path use_bert_arg test_size save_processed p = (Inr res, p') \<longrightarrow>
      (\<exists>df0 df X_combined p3 y sc.
          read_csv env file_path = Inr df0
        \<and> assemble_features env file_path use_bert_arg p = (Inr (df, X_combined), p3)
        \<and> length X_combined = nrows df0
        \<and> df_col df ''level_encoded'' = Some y
        \<and> scaler_fit X_combined = Inr sc \<and> scaler p' = Some sc
        \<and> train_test_split env (scaler_transform sc X_combined) y test_size = Inr res)
    \<and> preprocess_logs env file_path use_bert_arg test_size save_processed (p\<lparr>scaler := s\<rparr>)
         = (Inr res, p'))
   \<and> (load_processed_data p = (Inr arrays, q) \<longrightarrow>
      (\<exists>objects. disk p ''preprocessor_objects.pkl'' = Some (PickleFile objects)
         \<and> scaler q = so_scaler objects))"
proof (intro conjI impI)
  assume run: "preprocess_logs env file_path use_bert_arg test_size save_processed p = (Inr res, p')"
  from run obtain df X p3 where a: "assemble_features env file_path use_bert_arg p = (Inr (df, X), p3)"
    and s: "scale_and_split env test_size save_processed df X p3 = (Inr res, p')"
    by (auto simp: preprocess_logs_def split: sum.splits prod.splits)
  from assemble_features_success [OF a] obtain df0 msgs df3 p2 where f:
    "read_csv env file_path = Inr df0" "nrows df3 = nrows df0"
    "encode_categorical_features env df3 categorical_columns
          (log_info (''Loaded '' @ decimal (nrows df0) @ '' log entries'')
             (log_info (''Starting log preprocessing from '' @ quoted file_path) p)) = (Inr df, p2)"
    "text_features env use_bert_arg (cleaned_messages msgs) (df_values df (feature_columns df)) p2
          = (Inr X, p3)"
    by blast
  have "nrows df = nrows df3"
    using f(3) by (simp add: encode_categorical_features_def nrows_encode_columns)
  with text_features_rows [OF f(4)] f(2) have len: "length X = nrows df0" by simp
  from scale_and_split_success [OF s] obtain y sc where
    "df_col df ''level_encoded'' = Some y" "scaler_fit X = Inr sc" "scaler p' = Some sc"
    "train_test_split env (scaler_transform sc X) y test_size = Inr res"
    by blast
  with f(1) a len
  show "\<exists>df0 df X_combined p3 y sc.
          read_csv env file_path = Inr df0
        \<and> assemble_features env file_path use_bert_arg p = (Inr (df, X_combined), p3)
        \<and> length X_combined = nrows df0
        \<and> df_col df ''level_encoded'' = Some y
        \<and> scaler_fit X_combined = Inr sc \<and> scaler p' = Some sc
        \<and> train_test_split env (scaler_transform sc X_combined) y test_size = Inr res"
    by blast
  from preprocess_logs_scaler [OF run]
  show "preprocess_logs env file_path use_bert_arg test_size save_processed (p\<lparr>scaler := s\<rparr>)
         = (Inr res, p')" .
next
  assume "load_processed_data p = (Inr arrays, q)"
  from load_processed_data_scaler [OF this]
  show "\<exists>objects. disk p ''preprocessor_objects.pkl'' = Some (PickleFile objects)
         \<and> scaler q = so_scaler objects" .
qed

theorem scaler_refit_on_every_call_witness:
  "(\<exists>res p' df0 df X_combined p3 y sc.
       preprocess_logs example_env ''a.csv'' True (1 / 5) False example_preprocessor = (Inr res, p')
     \<and> read_csv example_env ''a.csv'' = Inr df0
     \<and> assemble_features example_env ''a.csv'' True example_preprocessor
          = (Inr (df, X_combined), p3)
     \<and> length X_combined = nrows df0
     \<and> df_col df ''level_encoded'' = Some y
     \<and> scaler_fit X_combined = Inr sc \<and> scaler p' = Some sc
     \<and> train_test_split example_env (scaler_transform sc X_combined) y (1 / 5) = Inr res
     \<and> preprocess_logs example_env ''a.csv'' True (1 / 5) False
          (example_preprocessor\<lparr>scaler :=
             Some \<lparr>sc_mean = [Val 9], sc_var = [Val 4], sc_scale = [Val 2]\<rparr>\<rparr>) = (Inr res, p'))
   \<and> (\<exists>arrays q.
       load_processed_data (example_preprocessor\<lparr>disk := (\<lambda>name.
          if name = ''preprocessor_objects.pkl''
          then Some (PickleFile \<lparr>so_label_encoders = [], so_tfidf_vectorizer = None,
                 so_scaler = Some \<lparr>sc_mean = [Val 9], sc_var = [Val 4], sc_scale = [Val 2]\<rparr>,
                 so_use_bert = False, so_bert_model_name = ''distilbert-base-uncased''\<rparr>)
          else Some (NpyFile (Vector [])))\<rparr>) = (Inr arrays, q)
     \<and> scaler q = Some \<lparr>sc_mean = [Val 9], sc_var = [Val 4], sc_scale = [Val 2]\<rparr>)"
proof (rule conjI)
  let ?s = "Some \<lparr>sc_mean = [Val 9], sc_var = [Val 4], sc_scale = [Val 2]\<rparr>"
  from example_run_a [OF example_preprocessor_fresh, of True]
  obtain res p' where a:
    "preprocess_logs example_env ''a.csv'' True (1 / 5) False example_preprocessor = (Inr res, p')"
    by blast
  from scaler_refit_on_every_call [of example_env "''a.csv''" True "1 / 5" False
      example_preprocessor res p' ?s] a
  have "(\<exists>df0 df X_combined p3 y sc.
          read_csv example_env ''a.csv'' = Inr df0
        \<and> assemble_features example_env ''a.csv'' True example_preprocessor
             = (Inr (df, X_combined), p3)
        \<and> length X_combined = nrows df0
        \<and> df_col df ''level_encoded'' = Some y
        \<and> scaler_fit X_combined = Inr sc \<and> scaler p' = Some sc
        \<and> train_test_split example_env (scaler_transform sc X_combined) y (1 / 5) = Inr res)
     \<and> preprocess_logs example_env ''a.csv'' True (1 / 5) False
          (example_preprocessor\<lparr>scaler := ?s\<rparr>) = (Inr res, p')"
    by blast
  with a show "\<exists>res p' df0 df X_combined p3 y sc.
       preprocess_logs example_env ''a.csv'' True (1 / 5) False example_preprocessor = (Inr res, p')
     \<and> read_csv example_env ''a.csv'' = Inr df0
     \<and> assemble_features example_env ''a.csv'' True example_preprocessor
          = (Inr (df, X_combined), p3)
     \<and> length X_combined = nrows df0
     \<and> df_col df ''level_encoded'' = Some y
     \<and> scaler_fit X_combined = Inr sc \<and> scaler p' = Some sc
     \<and> train_test_split example_env (scaler_transform sc X_combined) y (1 / 5) = Inr res
     \<and> preprocess_logs example_env ''a.csv'' True (1 / 5) False
          (example_preprocessor\<lparr>scaler := ?s\<rparr>) = (Inr res, p')"
    by blast
next
  let ?objects = "\<lparr>so_label_encoders = [], so_tfidf_vectorizer = None,
                 so_scaler = Some \<lparr>sc_mean = [Val 9], sc_var = [Val 4], sc_scale = [Val 2]\<rparr>,
                 so_use_bert = False, so_bert_model_name = ''distilbert-base-uncased''\<rparr>
                 :: nat saved_objects"
  let ?p = "example_preprocessor\<lparr>disk := (\<lambda>name.
          if name = ''preprocessor_objects.pkl''
          then Some (PickleFile ?objects)
          else Some (NpyFile (Vector [])))\<rparr>"
  obtain arrays q where l: "load_processed_data ?p = (Inr arrays, q)"
    by (simp add: load_processed_data_def np_load_def pickle_load_def)
  from scaler_refit_on_every_call [of _ _ _ _ _ ?p _ _ _ arrays q] l
  obtain objects where "disk ?p ''preprocessor_objects.pkl'' = Some (PickleFile objects)"
    "scaler q = so_scaler objects"
    by blast
  then have "scaler q = Some \<lparr>sc_mean = [Val 9], sc_var = [Val 4], sc_scale = [Val 2]\<rparr>"
    by auto
  with l show "\<exists>arrays q. load_processed_data ?p = (Inr arrays, q)
     \<and> scaler q = Some \<lparr>sc_mean = [Val 9], sc_var = [Val 4], sc_scale = [Val 2]\<rparr>"
    by blast
qed

text \<open>
  Claim C5 as stated fails. On a file of six records, two of level \<open>ERROR\<close> and four of
  level \<open>INFO\<close>, the fitted mean of the encoded level is 2/3, the mean over all six rows;
  the training set is four rows, and no four rows have that mean (fitting on the
  training rows alone gives 3/4). A second run on another file replaces the fitted means.
\<close>

theorem scaler_fit_once_counterexample:
  "\<exists>r1 p1 s1 r2 p2 s2 s.
      preprocess_logs example_env ''a.csv'' True (1 / 5) False example_preprocessor = (Inr r1, p1)
    \<and> scaler p1 = Some s1 \<and> sc_mean s1 = [Val (2 / 3), Val (38 / 3)]
    \<and> fst r1 = take 4 (scaler_transform s1 matrix_a)
    \<and> scaler_fit (take 4 matrix_a) = Inr s \<and> sc_mean s = [Val (3 / 4), Val (23 / 2)]
    \<and> preprocess_logs example_env ''b.csv'' True (1 / 5) False p1 = (Inr r2, p2)
    \<and> scaler p2 = Some s2 \<and> sc_mean s2 = [Val (1 / 2), Val (73 / 6)]"
proof -
  from example_run_a [OF example_preprocessor_fresh, of True]
  obtain r1 p1 s1 where a:
    "preprocess_logs example_env ''a.csv'' True (1 / 5) False example_preprocessor = (Inr r1, p1)"
    "scaler p1 = Some s1" "sc_mean s1 = [Val (2 / 3), Val (38 / 3)]"
    "label_encoders p1 = [(''level'', [''ERROR'', ''INFO''])]"
    "tfidf_vectorizer p1 = Some (Fitted 0)" "\<not> use_bert p1"
    "fst r1 = take 4 (scaler_transform s1 matrix_a)"
    by (elim exE conjE) (rule that; assumption)
  from example_run_b [OF a(4) a(6) a(5), of True]
  obtain r2 p2 s2 where b:
    "preprocess_logs example_env ''b.csv'' True (1 / 5) False p1 = (Inr r2, p2)"
    "scaler p2 = Some s2" "sc_mean s2 = [Val (1 / 2), Val (73 / 6)]"
    by (elim exE conjE) (rule that; assumption)
  from example_train_only obtain s where
    "scaler_fit (take 4 matrix_a) = Inr s" "sc_mean s = [Val (3 / 4), Val (23 / 2)]"
    by blast
  with a(1,2,3,7) b show ?thesis by blast
qed

section \<open>Saving and loading the bank\<close>

subsection \<open>Substrings, patterns and the names read back from paths\<close>










subsection \<open>The files one loop of \<^verbatim>\<open>save_models\<close> writes\<close>

lemma written_simps [simp]:
  "written stem [] fs = fs"
  "written stem ((k, v) # kvs) fs = written stem kvs (dict_set fs (stem @ k @ ''.pkl'') v)"
  by (simp_all add: written_def)







lemma dict_set_fresh: "k \<notin> fst ` set reg \<Longrightarrow> dict_set reg k v = reg @ [(k, v)]"
  by (induction reg) auto

lemma fold_dict_set_fresh:
  assumes "distinct (map fst kvs)" and "\<forall>k \<in> fst ` set kvs. k \<notin> fst ` set reg"
  shows "fold (\<lambda>(k, v) r. dict_set r k v) kvs reg = reg @ kvs"
  using assms
proof (induction kvs arbitrary: reg)
  case Nil
  then show ?case by simp
next
  case (Cons kv kvs)
  obtain k v where kv: "kv = (k, v)" by (cases kv)
  have "k \<notin> fst ` set reg" using Cons.prems(2) by (simp add: kv)
  note s = dict_set_fresh [OF this, of v]
  have "fold (\<lambda>(k, v) r. dict_set r k v) kvs (reg @ [(k, v)]) = (reg @ [(k, v)]) @ kvs"
    using Cons.prems by (intro Cons.IH) (auto simp: kv)
  then show ?case by (simp add: kv s)
qed

lemma load_all_written:
  assumes "\<forall>(k, v) \<in> set kvs. artifact_name sep (stem @ k @ ''.pkl'') = Inr k
             \<and> map_of files (stem @ k @ ''.pkl'') = Some v"
  shows "load_all sep files (map (\<lambda>(k, v). stem @ k @ ''.pkl'') kvs) reg
     = (None, fold (\<lambda>(k, v) r. dict_set r k v) kvs reg)"
  using assms
proof (induction kvs arbitrary: reg)
  case Nil
  then show ?case by simp
next
  case (Cons kv kvs)
  obtain k v where kv: "kv = (k, v)" by (cases kv)
  from Cons.prems have "\<forall>(k, v) \<in> set kvs. artifact_name sep (stem @ k @ ''.pkl'') = Inr k
             \<and> map_of files (stem @ k @ ''.pkl'') = Some v" by simp
  from Cons.IH [OF this] Cons.prems show ?case by (simp add: kv)
qed

subsection \<open>What the two patterns of \<^verbatim>\<open>load_models\<close> find\<close>







subsection \<open>The round trip\<close>









end
